theory Spec2Isabelle
  imports Complex_Main
begin

section \<open>JavaScript numbers\<close>

text \<open>
  The backend (\<^verbatim>\<open>src/backend/server.js\<close>) computes with JavaScript Numbers. Spot
  counts are integers (\<open>int\<close>, standing for safe integers) and other quantities are
  reals. Where a result depends on the rounding of double-precision arithmetic, in the
  matched-history branch of the predictor, every operation is followed by the rounding
  of the host (section on double-precision arithmetic below). The only non-finite values
  the code can produce come from a division by zero, which is written out: \<open>0/0\<close> is
  \<open>NaN\<close>, \<open>x/0\<close> is an infinity of the sign of \<open>x\<close>.
\<close>

datatype jsnum = Fin real | NaN | PosInf | NegInf

definition js_div :: "real \<Rightarrow> real \<Rightarrow> jsnum" where
  "js_div a b =
     (if b \<noteq> 0 then Fin (a / b)
      else if a = 0 then NaN
      else if 0 < a then PosInf else NegInf)"

text \<open>\<^verbatim>\<open>x * 100\<close> on a possibly non-finite \<open>x\<close>.\<close>

fun js_times100 :: "jsnum \<Rightarrow> jsnum" where
  "js_times100 (Fin x) = Fin (x * 100)"
| "js_times100 NaN = NaN"
| "js_times100 PosInf = PosInf"
| "js_times100 NegInf = NegInf"

text \<open>\<^verbatim>\<open>Math.round\<close>: nearest integer, ties towards \<open>+\<infinity>\<close>.\<close>

definition Math_round :: "real \<Rightarrow> int" where
  "Math_round x = \<lfloor>x + 1 / 2\<rfloor>"

text \<open>\<^verbatim>\<open>Number.isSafeInteger\<close>: the integers every one of which is a double.\<close>

definition isSafeInteger :: "int \<Rightarrow> bool" where
  "isSafeInteger n = (\<bar>n\<bar> \<le> 2 ^ 53 - 1)"

text \<open>
  \<^verbatim>\<open>parseFloat(x.toFixed(1))\<close>: one decimal, ties away from zero; \<open>NaN\<close> and the
  infinities print as \<^verbatim>\<open>"NaN"\<close>, \<^verbatim>\<open>"Infinity"\<close>, \<^verbatim>\<open>"-Infinity"\<close> and parse back
  to themselves.
\<close>

fun toFixed1 :: "jsnum \<Rightarrow> jsnum" where
  "toFixed1 (Fin x) =
     Fin ((if x < 0 then - 1 else 1) * real_of_int \<lfloor>\<bar>x\<bar> * 10 + 1 / 2\<rfloor> / 10)"
| "toFixed1 NaN = NaN"
| "toFixed1 PosInf = PosInf"
| "toFixed1 NegInf = NegInf"

text \<open>\<^verbatim>\<open>JSON.stringify\<close> of a Number: \<open>NaN\<close> and the infinities become \<^verbatim>\<open>null\<close>.\<close>

fun json_number :: "jsnum \<Rightarrow> real option" where
  "json_number (Fin x) = Some x"
| "json_number _ = None"

text \<open>Decimal rendering of a number inside a template literal.\<close>

function show_nat :: "nat \<Rightarrow> string" where
  "show_nat n =
     (if n < 10 then [''0123456789'' ! n]
      else show_nat (n div 10) @ [''0123456789'' ! (n mod 10)])"
  by pat_completeness auto
termination
  by (relation "measure id") auto

declare show_nat.simps [simp del]

definition show_int :: "int \<Rightarrow> string" where
  "show_int k = (if k < 0 then CHR ''-'' # show_nat (nat (- k)) else show_nat (nat k))"

section \<open>Double-precision arithmetic\<close>

text \<open>
  The arithmetic of the host: \<open>to_double\<close> rounds the exact result of an operation (or a
  decimal literal) to a double, \<open>Math_pow2 x\<close> is \<^verbatim>\<open>Math.pow(x, 2)\<close> and
  \<open>Math_sqrt\<close> is \<^verbatim>\<open>Math.sqrt\<close>, which the language leaves to the implementation.
\<close>

record js_math =
  to_double :: "real \<Rightarrow> real"
  Math_pow2 :: "real \<Rightarrow> real"
  Math_sqrt :: "real \<Rightarrow> real"

text \<open>The number of binary digits of a positive integer.\<close>

function bit_length :: "int \<Rightarrow> int" where
  "bit_length k = (if k \<le> 0 then 0 else 1 + bit_length (k div 2))"
  by pat_completeness auto
termination
  by (relation "measure nat") auto

declare bit_length.simps [simp del]

definition two_pow :: "int \<Rightarrow> real" where
  "two_pow e = (if 0 \<le> e then 2 ^ nat e else 1 / 2 ^ nat (- e))"

text \<open>The exponent \<open>e\<close> with \<open>2 ^ e \<le> \<bar>x\<bar> < 2 ^ (e + 1)\<close>, for \<open>x \<noteq> 0\<close>.\<close>

definition binade :: "real \<Rightarrow> int" where
  "binade x =
     (let a = \<bar>x\<bar>
      in if 1 \<le> a then bit_length \<lfloor>a\<rfloor> - 1
         else (let b = bit_length \<lfloor>1 / a\<rfloor>
               in if a * 2 ^ nat (b - 1) = 1 then - (b - 1) else - b))"

definition round_half_even :: "real \<Rightarrow> int" where
  "round_half_even y =
     (let f = \<lfloor>y\<rfloor>; d = y - real_of_int f
      in if d < 1 / 2 then f else if 1 / 2 < d then f + 1 else if even f then f else f + 1)"

text \<open>
  IEEE 754 binary64, round to nearest, ties to even: 53 significant bits, subnormals
  below \<open>2 ^ (- 1022)\<close>. Overflow to an infinity is not represented: the arguments stay
  far below \<open>2 ^ 1024\<close> for counts that are safe integers.
\<close>

definition round_double :: "real \<Rightarrow> real" where
  "round_double x =
     (if x = 0 then 0
      else (let e = max (binade x - 52) (- 1074)
            in real_of_int (round_half_even (x / two_pow e)) * two_pow e))"

text \<open>
  Arithmetic in which every operation, the power and the square root are correctly
  rounded.
\<close>

definition ieee754 :: js_math where
  "ieee754 = \<lparr>to_double = round_double,
               Math_pow2 = (\<lambda>x. round_double (x * x)),
               Math_sqrt = (\<lambda>x. round_double (sqrt x))\<rparr>"

section \<open>Data model (the Mongoose schemas)\<close>

type_synonym lot_id = string

record location =
  lat :: real
  lng :: real

record sensor =
  spotId :: string
  isOccupied :: bool
  sensorUpdate :: int

text \<open>
  The fields shared by a stored parking lot and by the facility shape the API returns.
  Dates are milliseconds since the epoch.
\<close>

record lot_core =
  lot_id :: lot_id
  name :: string
  totalSpots :: int
  availableSpots :: int
  location :: location
  lastUpdate :: int

record parking_lot = lot_core +
  sensors :: "sensor list"

record facility = lot_core +
  predictedAvailability :: int
  fac_confidence :: int

record historical_data =
  parkingLotId :: lot_id
  timestamp :: int
  h_availableSpots :: int
  occupancyRate :: jsnum
  dayOfWeek :: nat
  hour :: nat
  isHoliday :: bool

text \<open>
  Errors: \<open>Error m\<close> is \<^verbatim>\<open>new Error(m)\<close>, \<open>Non2xx s\<close> the error
  \<^verbatim>\<open>callOverpass\<close> throws on status \<open>s\<close>, \<open>Rejected m\<close> an error with
  message \<open>m\<close> raised by a library call (the HTTP client, the record store), and
  \<open>ReferenceError x\<close> the error of evaluating the undeclared identifier \<open>x\<close>.
\<close>

datatype js_error =
    Error string
  | Non2xx int
  | Rejected string
  | ReferenceError string

fun message :: "js_error \<Rightarrow> string" where
  "message (Error m) = m"
| "message (Non2xx s) = ''Overpass non-2xx: '' @ show_int s"
| "message (Rejected m) = m"
| "message (ReferenceError x) = x @ '' is not defined''"

text \<open>\<^verbatim>\<open>ParkingLot.findById\<close> on the list of stored lots.\<close>

definition findById :: "parking_lot list \<Rightarrow> lot_id \<Rightarrow> parking_lot option" where
  "findById lots i = find (\<lambda>l. lot_id l = i) lots"

section \<open>Statistics endpoint\<close>

record stats =
  totalParkingLots :: nat
  st_totalSpots :: int
  totalAvailable :: int
  avgOccupancy :: jsnum

text \<open>The body of \<^verbatim>\<open>app.get('/api/stats')\<close> once \<^verbatim>\<open>ParkingLot.find()\<close> has answered.\<close>

definition get_stats :: "parking_lot list \<Rightarrow> stats" where
  "get_stats lots =
     (let total = foldl (\<lambda>sum lot. sum + totalSpots lot) 0 lots;
          avail = foldl (\<lambda>sum lot. sum + availableSpots lot) 0 lots;
          avgOcc = toFixed1 (js_times100 (js_div (real_of_int (total - avail)) (real_of_int total)))
      in \<lparr>totalParkingLots = length lots, st_totalSpots = total,
          totalAvailable = avail, avgOccupancy = avgOcc\<rparr>)"

section \<open>Prediction engine\<close>

record prediction =
  predictedSpots :: int
  confidence :: jsnum

text \<open>\<^verbatim>\<open>Date.getHours\<close> and \<^verbatim>\<open>Date.getDay\<close>, for a server whose local time is UTC.\<close>

definition getHours :: "int \<Rightarrow> nat" where
  "getHours t = nat ((t div 3600000) mod 24)"

definition getDay :: "int \<Rightarrow> nat" where
  "getDay t = nat ((t div 86400000 + 4) mod 7)"

text \<open>\<^verbatim>\<open>HistoricalData.find(filter).sort({ timestamp: -1 }).limit(k)\<close>.\<close>

definition find_sorted_limited ::
  "(historical_data \<Rightarrow> bool) \<Rightarrow> nat \<Rightarrow> historical_data list \<Rightarrow> historical_data list" where
  "find_sorted_limited p k hist = take k (sort_key (\<lambda>r. - timestamp r) (filter p hist))"

definition historicalPattern ::
  "historical_data list \<Rightarrow> int \<Rightarrow> lot_id \<Rightarrow> int \<Rightarrow> historical_data list" where
  "historicalPattern hist now i minutesAhead =
     (let targetTime = now + minutesAhead * 60000;
          targetHour = getHours targetTime;
          targetDay = getDay targetTime
      in find_sorted_limited
           (\<lambda>r. parkingLotId r = i \<and> dayOfWeek r = targetDay \<and> hour r = targetHour) 20 hist)"

text \<open>
  The matched-history branch, in the arithmetic \<open>fp\<close>.
  \<^verbatim>\<open>rs.reduce((s, r) => s + r.availableSpots, 0)\<close>:
\<close>

definition sum_available :: "js_math \<Rightarrow> historical_data list \<Rightarrow> real" where
  "sum_available fp rs =
     foldl (\<lambda>s r. to_double fp (s + real_of_int (h_availableSpots r))) 0 rs"

definition avgAvailability :: "js_math \<Rightarrow> historical_data list \<Rightarrow> real" where
  "avgAvailability fp rs = to_double fp (sum_available fp rs / real (length rs))"

definition trend :: "js_math \<Rightarrow> historical_data list \<Rightarrow> lot_id \<Rightarrow> real" where
  "trend fp hist i =
     (let recentData = find_sorted_limited (\<lambda>r. parkingLotId r = i) 6 hist
      in if 2 \<le> length recentData
         then (let recentAvg = to_double fp (sum_available fp (take 3 recentData) / 3);
                   olderAvg = to_double fp (sum_available fp (take 3 (drop 3 recentData)) / 3)
               in to_double fp (recentAvg - olderAvg))
         else 0)"

definition variance :: "js_math \<Rightarrow> historical_data list \<Rightarrow> real" where
  "variance fp rs =
     to_double fp
       (foldl (\<lambda>s r. to_double fp
                 (s + Math_pow2 fp
                        (to_double fp (real_of_int (h_availableSpots r) - avgAvailability fp rs))))
          0 rs
        / real (length rs))"

definition stdDev :: "js_math \<Rightarrow> historical_data list \<Rightarrow> real" where
  "stdDev fp rs = Math_sqrt fp (variance fp rs)"

text \<open>
  \<^verbatim>\<open>avgAvailability * 0.6 + lot.availableSpots * 0.3 + trend * 0.1\<close>, from left to
  right.
\<close>

definition blend :: "js_math \<Rightarrow> real \<Rightarrow> int \<Rightarrow> real \<Rightarrow> real" where
  "blend fp avg available tr =
     to_double fp
       (to_double fp (to_double fp (avg * to_double fp (6 / 10))
                      + to_double fp (real_of_int available * to_double fp (3 / 10)))
        + to_double fp (tr * to_double fp (1 / 10)))"

text \<open>
  \<^verbatim>\<open>Math.round(Math.min(95, Math.max(70, 100 - q * 100)))\<close> where \<open>q\<close> is
  \<^verbatim>\<open>stdDev / lot.totalSpots\<close>: \<open>NaN\<close> propagates through \<^verbatim>\<open>Math.max\<close>,
  \<^verbatim>\<open>Math.min\<close> and \<^verbatim>\<open>Math.round\<close>; an infinite \<open>q\<close> is clamped.
\<close>

fun confidence_of :: "js_math \<Rightarrow> jsnum \<Rightarrow> jsnum" where
  "confidence_of fp (Fin q) =
     Fin (real_of_int (Math_round (min 95 (max 70
            (to_double fp (100 - to_double fp (to_double fp q * 100)))))))"
| "confidence_of fp NaN = NaN"
| "confidence_of fp PosInf = Fin 70"
| "confidence_of fp NegInf = Fin 95"

text \<open>
  \<^verbatim>\<open>ParkingPredictor.predictAvailability\<close>. \<open>rnd\<close> is the value \<^verbatim>\<open>Math.random()\<close>
  returns if the no-data branch asks for it. The \<^verbatim>\<open>catch\<close> rethrows, so an error is
  the result \<open>Inl\<close>. Identifiers are taken to be well-formed ObjectIds.
\<close>

definition predictAvailability ::
  "js_math \<Rightarrow> parking_lot list \<Rightarrow> historical_data list \<Rightarrow> int \<Rightarrow> real \<Rightarrow> lot_id \<Rightarrow> int
     \<Rightarrow> js_error + prediction" where
  "predictAvailability fp lots hist now rnd i minutesAhead =
     (case findById lots i of
        None \<Rightarrow> Inl (Error ''Parking lot not found'')
      | Some lot \<Rightarrow>
          (let pat = historicalPattern hist now i minutesAhead
           in if length pat = 0
              then Inr \<lparr>predictedSpots = max 0 (availableSpots lot + \<lfloor>rnd * 10 - 5\<rfloor>),
                        confidence = Fin 60\<rparr>
              else
                (let avg = avgAvailability fp pat;
                     tr = trend fp hist i;
                     predicted = Math_round (blend fp avg (availableSpots lot) tr);
                     conf = confidence_of fp
                              (js_div (stdDev fp pat) (real_of_int (totalSpots lot)));
                     adjustedPrediction = max 0 (min (totalSpots lot) predicted)
                 in Inr \<lparr>predictedSpots = adjustedPrediction, confidence = conf\<rparr>)))"

section \<open>Routes that call the prediction engine\<close>

datatype json_body =
    PredictionJson int jsnum int
  | LotJson parking_lot int jsnum
  | ErrorJson string

record response =
  status :: int
  body :: json_body

text \<open>
  \<^verbatim>\<open>app.get('/api/parking-lots/:id/predict')\<close>; \<open>minutes\<close> is
  \<^verbatim>\<open>parseInt(req.query.minutes)\<close>, \<open>None\<close> for \<open>NaN\<close>. Every error is answered
  with status 500.
\<close>

definition predict_route ::
  "js_math \<Rightarrow> parking_lot list \<Rightarrow> historical_data list \<Rightarrow> int \<Rightarrow> real \<Rightarrow> lot_id
     \<Rightarrow> int option \<Rightarrow> response" where
  "predict_route fp lots hist now rnd i minutes =
     (let minutesAhead = (case minutes of None \<Rightarrow> 30 | Some m \<Rightarrow> if m = 0 then 30 else m)
      in case predictAvailability fp lots hist now rnd i minutesAhead of
           Inr p \<Rightarrow> \<lparr>status = 200,
                     body = PredictionJson (predictedSpots p) (confidence p)
                              (now + minutesAhead * 60000)\<rparr>
         | Inl e \<Rightarrow> \<lparr>status = 500, body = ErrorJson (message e)\<rparr>)"

text \<open>\<^verbatim>\<open>app.get('/api/parking-lots/:id')\<close>: a missing lot is answered with status 404.\<close>

definition get_lot_route ::
  "js_math \<Rightarrow> parking_lot list \<Rightarrow> historical_data list \<Rightarrow> int \<Rightarrow> real \<Rightarrow> lot_id
     \<Rightarrow> response" where
  "get_lot_route fp lots hist now rnd i =
     (case findById lots i of
        None \<Rightarrow> \<lparr>status = 404, body = ErrorJson ''Parking lot not found''\<rparr>
      | Some lot \<Rightarrow>
          (case predictAvailability fp lots hist now rnd (lot_id lot) 30 of
             Inr p \<Rightarrow> \<lparr>status = 200, body = LotJson lot (predictedSpots p) (confidence p)\<rparr>
           | Inl e \<Rightarrow> \<lparr>status = 500, body = ErrorJson (message e)\<rparr>))"

section \<open>Result transformer\<close>

text \<open>
  \<^verbatim>\<open>parseInt(s)\<close> without a radix: leading white space is skipped, a sign is read, a
  \<^verbatim>\<open>0x\<close> prefix selects base 16, and the longest prefix of digits is the value;
  \<open>None\<close> stands for \<open>NaN\<close> (no digit, or \<^verbatim>\<open>undefined\<close>).
\<close>

definition is_space :: "char \<Rightarrow> bool" where
  "is_space c = (c \<in> set [CHR '' '', CHR 0x09, CHR 0x0A, CHR 0x0B, CHR 0x0C, CHR 0x0D])"

definition digit_val :: "char \<Rightarrow> nat option" where
  "digit_val c =
     (let n = (of_char c :: nat)
      in if 48 \<le> n \<and> n \<le> 57 then Some (n - 48)
         else if 97 \<le> n \<and> n \<le> 122 then Some (n - 87)
         else if 65 \<le> n \<and> n \<le> 90 then Some (n - 55)
         else None)"

definition is_digit :: "nat \<Rightarrow> char \<Rightarrow> bool" where
  "is_digit radix c = (case digit_val c of None \<Rightarrow> False | Some d \<Rightarrow> d < radix)"

definition digits_value :: "nat \<Rightarrow> string \<Rightarrow> nat" where
  "digits_value radix ds = foldl (\<lambda>acc c. acc * radix + (case digit_val c of None \<Rightarrow> 0 | Some d \<Rightarrow> d)) 0 ds"

definition parseInt :: "string option \<Rightarrow> int option" where
  "parseInt x =
     (case x of
        None \<Rightarrow> None
      | Some s \<Rightarrow>
          (let s1 = dropWhile is_space s;
               negative = (s1 \<noteq> [] \<and> hd s1 = CHR ''-'');
               s2 = (if s1 \<noteq> [] \<and> (hd s1 = CHR ''-'' \<or> hd s1 = CHR ''+'') then tl s1 else s1);
               hex = (take 2 s2 = ''0x'' \<or> take 2 s2 = ''0X'');
               radix = (if hex then 16 else 10);
               s3 = (if hex then drop 2 s2 else s2);
               ds = takeWhile (is_digit radix) s3
           in if ds = [] then None
              else Some ((if negative then - 1 else 1) * int (digits_value radix ds))))"

record latlon =
  ll_lat :: real
  ll_lon :: real

text \<open>
  A raw Overpass element: \<open>None\<close> is an absent property; the tags are the strings
  \<^verbatim>\<open>el.tags?.capacity\<close> and \<^verbatim>\<open>el.tags?.name\<close>.
\<close>

record element =
  el_id :: int
  el_lat :: "real option"
  el_lon :: "real option"
  el_center :: "latlon option"
  tag_capacity :: "string option"
  tag_name :: "string option"

text \<open>\<^verbatim>\<open>a || b\<close> on an optional number: \<^verbatim>\<open>undefined\<close> and \<open>0\<close> are falsy.\<close>

definition num_or :: "real option \<Rightarrow> real \<Rightarrow> real" where
  "num_or a b = (case a of None \<Rightarrow> b | Some x \<Rightarrow> if x = 0 then b else x)"

text \<open>
  The body of the \<^verbatim>\<open>map\<close> callback of \<^verbatim>\<open>mapOverpassToParkingLots\<close>. \<open>random\<close> is
  the sequence of values \<^verbatim>\<open>Math.random()\<close> returns and \<open>n\<close> the number of values
  already drawn; the callback returns the facility and the new count. \<open>now\<close> is the clock
  read by \<^verbatim>\<open>new Date()\<close>.
\<close>

definition map_element ::
  "(nat \<Rightarrow> real) \<Rightarrow> int \<Rightarrow> real \<Rightarrow> real \<Rightarrow> nat \<Rightarrow> nat \<Rightarrow> element \<Rightarrow> facility \<times> nat" where
  "map_element random now fallbackLat fallbackLng n idx el =
     (let parsed = parseInt (tag_capacity el);
          drawn = (parsed = None \<or> parsed = Some 0);
          capacity = (if drawn then \<lfloor>random n * 200 + 50\<rfloor> else (case parsed of None \<Rightarrow> 0 | Some c \<Rightarrow> c));
          n1 = (if drawn then Suc n else n);
          occupied = \<lfloor>real_of_int capacity * (3 / 10 + random n1 * (5 / 10))\<rfloor>;
          available = max 0 (capacity - occupied);
          centerLat = num_or (el_lat el) (num_or (map_option ll_lat (el_center el)) fallbackLat);
          centerLng = num_or (el_lon el) (num_or (map_option ll_lon (el_center el)) fallbackLng)
      in (\<lparr>lot_id = ''osm-'' @ show_int (el_id el),
           name = (case tag_name el of
                     None \<Rightarrow> ''Parking Lot '' @ show_nat (idx + 1)
                   | Some s \<Rightarrow> if s = [] then ''Parking Lot '' @ show_nat (idx + 1) else s),
           totalSpots = capacity,
           availableSpots = available,
           location = \<lparr>lat = centerLat, lng = centerLng\<rparr>,
           lastUpdate = now,
           predictedAvailability = max 0 (available + \<lfloor>random (n1 + 1) * 20 - 10\<rfloor>),
           fac_confidence = 85 + \<lfloor>random (n1 + 2) * 10\<rfloor>\<rparr>,
          n1 + 3))"

fun map_elements ::
  "(nat \<Rightarrow> real) \<Rightarrow> int \<Rightarrow> real \<Rightarrow> real \<Rightarrow> nat \<Rightarrow> nat \<Rightarrow> element list \<Rightarrow> facility list \<times> nat" where
  "map_elements random now fallbackLat fallbackLng n idx [] = ([], n)"
| "map_elements random now fallbackLat fallbackLng n idx (el # els) =
     (let (f, n1) = map_element random now fallbackLat fallbackLng n idx el;
          (fs, n2) = map_elements random now fallbackLat fallbackLng n1 (Suc idx) els
      in (f # fs, n2))"

definition mapOverpassToParkingLots ::
  "(nat \<Rightarrow> real) \<Rightarrow> nat \<Rightarrow> int \<Rightarrow> element list \<Rightarrow> real \<Rightarrow> real \<Rightarrow> facility list \<times> nat" where
  "mapOverpassToParkingLots random n now elements fallbackLat fallbackLng =
     map_elements random now fallbackLat fallbackLng n 0 (take 50 elements)"

section \<open>Overpass client, caches and the area fetch\<close>

datatype overpass_query =
    NearbyQuery real real int
  | IdQuery string

text \<open>
  What \<^verbatim>\<open>axios.post\<close> does: the promise rejects with an error, or resolves with a
  status and a body whose \<^verbatim>\<open>elements\<close> may be absent.
\<close>

datatype http_outcome =
    Threw js_error
  | Resp int "element list option"

text \<open>
  The upstream servers: the outcome of a request may depend on how many requests were
  made before it, on the URL (\<open>None\<close> is \<^verbatim>\<open>undefined\<close>) and on the query.
\<close>

type_synonym upstream = "nat \<Rightarrow> string option \<Rightarrow> overpass_query \<Rightarrow> http_outcome"

record area_cache =
  ac_key :: "string option"
  ac_lots :: "facility list option"
  ac_indexById :: "(lot_id \<rightharpoonup> facility) option"
  ac_ts :: int

text \<open>
  The module state the fetch functions can reach: the log of requests posted upstream, the
  back-off delays waited, and the two caches.
\<close>

record server_state =
  calls :: "(string option \<times> overpass_query) list"
  delays :: "nat list"
  areaCache :: area_cache
  singleIdCache :: "lot_id \<rightharpoonup> (facility \<times> int)"

definition initial_areaCache :: area_cache where
  "initial_areaCache = \<lparr>ac_key = None, ac_lots = None, ac_indexById = None, ac_ts = 0\<rparr>"

definition initial_state :: server_state where
  "initial_state = \<lparr>calls = [], delays = [], areaCache = initial_areaCache,
                     singleIdCache = Map.empty\<rparr>"

definition OVERPASS_MIRRORS :: "string list" where
  "OVERPASS_MIRRORS =
     [''https://overpass-api.de/api/interpreter'',
      ''https://overpass.kumi.systems/api/interpreter'',
      ''https://overpass.openstreetmap.ru/api/interpreter'']"

text \<open>The error an attempt leaves in \<^verbatim>\<open>lastErr\<close>; \<open>None\<close> when the attempt returns.\<close>

fun attempt_error :: "http_outcome \<Rightarrow> js_error option" where
  "attempt_error (Threw e) = Some e"
| "attempt_error (Resp st d) = (if 200 \<le> st \<and> st < 300 then None else Some (Non2xx st))"

fun resp_data :: "http_outcome \<Rightarrow> element list option" where
  "resp_data (Resp st d) = d"
| "resp_data (Threw e) = None"

text \<open>
  \<^verbatim>\<open>MIRRORS[i % MIRRORS.length]\<close>; on an empty list the index is \<open>NaN\<close> and the
  URL \<^verbatim>\<open>undefined\<close>.
\<close>

definition mirror_url :: "string list \<Rightarrow> nat \<Rightarrow> string option" where
  "mirror_url mirrors i = (if mirrors = [] then None else Some (mirrors ! (i mod length mirrors)))"

text \<open>
  The outcome of attempt \<open>j\<close> of a call that starts in state \<open>s\<close>, when every attempt
  before it has failed: it is request number \<open>length (calls s) + j\<close>.
\<close>

definition attempt_outcome ::
  "upstream \<Rightarrow> string list \<Rightarrow> overpass_query \<Rightarrow> server_state \<Rightarrow> nat \<Rightarrow> http_outcome" where
  "attempt_outcome up mirrors query s j = up (length (calls s) + j) (mirror_url mirrors j) query"

text \<open>
  The \<^verbatim>\<open>for\<close> loop of \<^verbatim>\<open>callOverpass\<close> from attempt \<open>i\<close> on, over a list of
  mirrors. \<open>Inl lastErr\<close> is \<^verbatim>\<open>throw lastErr\<close> (\<open>Inl None\<close> throws
  \<^verbatim>\<open>undefined\<close>).
\<close>

function callOverpass_from ::
  "upstream \<Rightarrow> string list \<Rightarrow> overpass_query \<Rightarrow> nat \<Rightarrow> nat \<Rightarrow> js_error option \<Rightarrow> server_state
     \<Rightarrow> (js_error option + element list option) \<times> server_state" where
  "callOverpass_from up mirrors query attempts i lastErr s =
     (if i < attempts
      then (let url = mirror_url mirrors i;
                outcome = up (length (calls s)) url query;
                s1 = s\<lparr>calls := calls s @ [(url, query)]\<rparr>
            in if attempt_error outcome = None then (Inr (resp_data outcome), s1)
               else callOverpass_from up mirrors query attempts (Suc i) (attempt_error outcome)
                      (s1\<lparr>delays := delays s1 @ [500 * 2 ^ i]\<rparr>))
      else (Inl lastErr, s))"
  by pat_completeness auto
termination
  by (relation "measure (\<lambda>(up, mirrors, query, attempts, i, lastErr, s). attempts - i)") auto

declare callOverpass_from.simps [simp del]

definition callOverpassWith ::
  "string list \<Rightarrow> upstream \<Rightarrow> overpass_query \<Rightarrow> nat \<Rightarrow> server_state
     \<Rightarrow> (js_error option + element list option) \<times> server_state" where
  "callOverpassWith mirrors up query attempts s =
     callOverpass_from up mirrors query attempts 0 None s"

definition callOverpass ::
  "upstream \<Rightarrow> overpass_query \<Rightarrow> nat \<Rightarrow> server_state
     \<Rightarrow> (js_error option + element list option) \<times> server_state" where
  "callOverpass = callOverpassWith OVERPASS_MIRRORS"

text \<open>\<^verbatim>\<open>saveAreaCache\<close> and \<^verbatim>\<open>readAreaCache\<close> (ten minutes by default).\<close>

definition saveAreaCache :: "string \<Rightarrow> facility list \<Rightarrow> int \<Rightarrow> server_state \<Rightarrow> server_state" where
  "saveAreaCache k ls now s =
     s\<lparr>areaCache :=
         \<lparr>ac_key = Some k, ac_lots = Some ls,
          ac_indexById = Some (foldl (\<lambda>index lot. index(lot_id lot \<mapsto> lot)) Map.empty ls),
          ac_ts = now\<rparr>\<rparr>"

definition readAreaCache :: "string \<Rightarrow> int \<Rightarrow> int \<Rightarrow> server_state \<Rightarrow> area_cache option" where
  "readAreaCache k maxAgeMs now s =
     (if ac_key (areaCache s) \<noteq> Some k then None
      else if now - ac_ts (areaCache s) > maxAgeMs then None
      else Some (areaCache s))"

text \<open>
  \<^verbatim>\<open>OVERPASS_ENDPOINTS\<close> and \<^verbatim>\<open>transformOverpassToLots\<close> occur in
  \<^verbatim>\<open>fetchOpenStreetMapParking\<close> (lines 275 and 286) and are declared nowhere in the
  module, so evaluating either throws a \<^verbatim>\<open>ReferenceError\<close>. A binding is \<open>Some\<close> of
  its value, a missing one \<open>None\<close>.
\<close>

type_synonym transformer = "element list \<Rightarrow> real \<Rightarrow> real \<Rightarrow> facility list"

definition OVERPASS_ENDPOINTS :: "string list option" where
  "OVERPASS_ENDPOINTS = None"

definition transformOverpassToLots :: "transformer option" where
  "transformOverpassToLots = None"

text \<open>
  The loop of the area fetch over the endpoints that are left. A response that resolves
  is transformed and returned whatever its status; an error thrown inside the
  \<^verbatim>\<open>try\<close>, by the request or by the call of the transformer, is kept in
  \<^verbatim>\<open>lastErr\<close> and the next mirror is tried.
\<close>

fun try_endpoints ::
  "upstream \<Rightarrow> transformer option \<Rightarrow> real \<Rightarrow> real \<Rightarrow> int \<Rightarrow> string list \<Rightarrow> js_error option
     \<Rightarrow> server_state \<Rightarrow> (js_error + facility list) \<times> server_state" where
  "try_endpoints up transform lat' lng' radius [] lastErr s =
     (Inl (case lastErr of None \<Rightarrow> Error ''All Overpass mirrors failed'' | Some e \<Rightarrow> e), s)"
| "try_endpoints up transform lat' lng' radius (ep # eps) lastErr s =
     (let query = NearbyQuery lat' lng' radius;
          s1 = s\<lparr>calls := calls s @ [(Some ep, query)]\<rparr>
      in case up (length (calls s)) (Some ep) query of
           Resp st d \<Rightarrow>
             (case transform of
                None \<Rightarrow>
                  try_endpoints up transform lat' lng' radius eps
                    (Some (ReferenceError ''transformOverpassToLots'')) s1
              | Some f \<Rightarrow> (Inr (f (case d of None \<Rightarrow> [] | Some els \<Rightarrow> els) lat' lng'), s1))
         | Threw e \<Rightarrow> try_endpoints up transform lat' lng' radius eps (Some e) s1)"

text \<open>
  The body of \<^verbatim>\<open>fetchOpenStreetMapParking\<close> for given bindings of the two
  identifiers: the head of the \<^verbatim>\<open>for...of\<close> loop evaluates the endpoint list outside
  the \<^verbatim>\<open>try\<close>.
\<close>

definition fetch_with ::
  "string list option \<Rightarrow> transformer option \<Rightarrow> upstream \<Rightarrow> real \<Rightarrow> real \<Rightarrow> int \<Rightarrow> server_state
     \<Rightarrow> (js_error + facility list) \<times> server_state" where
  "fetch_with endpoints transform up lat' lng' radius s =
     (case endpoints of
        None \<Rightarrow> (Inl (ReferenceError ''OVERPASS_ENDPOINTS''), s)
      | Some eps \<Rightarrow> try_endpoints up transform lat' lng' radius eps None s)"

text \<open>\<^verbatim>\<open>fetchOpenStreetMapParking\<close> as the module has it.\<close>

definition fetchOpenStreetMapParking ::
  "upstream \<Rightarrow> real \<Rightarrow> real \<Rightarrow> int \<Rightarrow> server_state \<Rightarrow> (js_error + facility list) \<times> server_state" where
  "fetchOpenStreetMapParking = fetch_with OVERPASS_ENDPOINTS transformOverpassToLots"

section \<open>Background job and update route\<close>

record event =
  ev_lotId :: lot_id
  ev_availableSpots :: int
  ev_timestamp :: int

text \<open>
  The record store with the events emitted on the socket and the errors logged on the
  console.
\<close>

record world =
  db_lots :: "parking_lot list"
  db_history :: "historical_data list"
  emitted :: "event list"
  logged :: "js_error list"

text \<open>
  Which store operations fail, and with what error: \<^verbatim>\<open>ParkingLot.find()\<close>, saving or
  updating the lot with a given id, saving a history record of the lot with a given id.
\<close>

record faults =
  find_error :: "js_error option"
  lot_save_error :: "lot_id \<Rightarrow> js_error option"
  record_save_error :: "lot_id \<Rightarrow> js_error option"

text \<open>Writing \<open>availableSpots\<close> and \<open>lastUpdate\<close> of the document with the given id.\<close>

definition save_lot :: "lot_id \<Rightarrow> int \<Rightarrow> int \<Rightarrow> parking_lot list \<Rightarrow> parking_lot list" where
  "save_lot i newAvailable now ls =
     map (\<lambda>l. if lot_id l = i then l\<lparr>availableSpots := newAvailable, lastUpdate := now\<rparr> else l) ls"

text \<open>\<^verbatim>\<open>ParkingPredictor.recordCurrentState\<close>: its own \<^verbatim>\<open>catch\<close> logs and returns.\<close>

definition recordCurrentState :: "faults \<Rightarrow> int \<Rightarrow> lot_id \<Rightarrow> world \<Rightarrow> world" where
  "recordCurrentState fl now i w =
     (case findById (db_lots w) i of
        None \<Rightarrow> w
      | Some lot \<Rightarrow>
          (let record = \<lparr>parkingLotId = i, timestamp = now,
                         h_availableSpots = availableSpots lot,
                         occupancyRate =
                           js_times100 (js_div (real_of_int (totalSpots lot - availableSpots lot))
                                               (real_of_int (totalSpots lot))),
                         dayOfWeek = getDay now, hour = getHours now, isHoliday = False\<rparr>
           in case record_save_error fl i of
                None \<Rightarrow> w\<lparr>db_history := db_history w @ [record]\<rparr>
              | Some e \<Rightarrow> w\<lparr>logged := logged w @ [e]\<rparr>))"

text \<open>
  The \<^verbatim>\<open>for (const lot of lots)\<close> loop of the background job over the lots that are
  left; the first component of the result is the error that left the loop, if any.
  Each lot draws two random numbers.
\<close>

fun update_lots ::
  "faults \<Rightarrow> (nat \<Rightarrow> real) \<Rightarrow> int \<Rightarrow> parking_lot list \<Rightarrow> nat \<Rightarrow> world
     \<Rightarrow> js_error option \<times> nat \<times> world" where
  "update_lots fl random now [] n w = (None, n, w)"
| "update_lots fl random now (lot # rest) n w =
     (let change = \<lfloor>random n * 7\<rfloor> - 3;
          newAvailable = max 0 (min (totalSpots lot) (availableSpots lot + change))
      in case lot_save_error fl (lot_id lot) of
           Some e \<Rightarrow> (Some e, Suc n, w)
         | None \<Rightarrow>
             (let w1 = w\<lparr>db_lots := save_lot (lot_id lot) newAvailable now (db_lots w)\<rparr>;
                  w2 = (if random (Suc n) < 17 / 100
                        then recordCurrentState fl now (lot_id lot) w1 else w1);
                  w3 = w2\<lparr>emitted := emitted w2 @
                            [\<lparr>ev_lotId = lot_id lot, ev_availableSpots = newAvailable,
                              ev_timestamp = now\<rparr>]\<rparr>
              in update_lots fl random now rest (n + 2) w3))"

text \<open>One run of the \<^verbatim>\<open>setInterval\<close> callback: the outer \<^verbatim>\<open>catch\<close> logs the error.\<close>

definition background_job :: "faults \<Rightarrow> (nat \<Rightarrow> real) \<Rightarrow> int \<Rightarrow> nat \<Rightarrow> world \<Rightarrow> nat \<times> world" where
  "background_job fl random now n w =
     (case find_error fl of
        Some e \<Rightarrow> (n, w\<lparr>logged := logged w @ [e]\<rparr>)
      | None \<Rightarrow>
          (case update_lots fl random now (db_lots w) n w of
             (None, n1, w1) \<Rightarrow> (n1, w1)
           | (Some e, n1, w1) \<Rightarrow> (n1, w1\<lparr>logged := logged w1 @ [e]\<rparr>)))"

datatype put_body = LotDoc parking_lot | PutError string

text \<open>
  \<^verbatim>\<open>app.put('/api/parking-lots/:id')\<close> for a body that carries a numeric
  \<^verbatim>\<open>availableSpots\<close>; an absent \<^verbatim>\<open>sensors\<close> leaves the stored sensors as they are.
\<close>

definition put_lot_route ::
  "faults \<Rightarrow> int \<Rightarrow> lot_id \<Rightarrow> int \<Rightarrow> sensor list option \<Rightarrow> world \<Rightarrow> (int \<times> put_body) \<times> world" where
  "put_lot_route fl now i avail sens w =
     (case lot_save_error fl i of
        Some e \<Rightarrow> ((500, PutError (message e)), w)
      | None \<Rightarrow>
          (case findById (db_lots w) i of
             None \<Rightarrow> ((404, PutError ''Parking lot not found''), w)
           | Some old \<Rightarrow>
               (let upd = (\<lambda>l. l\<lparr>availableSpots := avail, lastUpdate := now,
                                    sensors := (case sens of None \<Rightarrow> sensors l | Some ss \<Rightarrow> ss)\<rparr>);
                    lot = upd old;
                    w1 = w\<lparr>db_lots := map (\<lambda>l. if lot_id l = i then upd l else l) (db_lots w)\<rparr>;
                    w2 = recordCurrentState fl now i w1;
                    w3 = w2\<lparr>emitted := emitted w2 @
                              [\<lparr>ev_lotId = i, ev_availableSpots = avail, ev_timestamp = now\<rparr>]\<rparr>
                in ((200, LotDoc lot), w3))))"

section \<open>Concrete scenarios\<close>

text \<open>
  An upstream whose first two requests time out and whose third answers with an empty
  element list, and one that always answers 503.
\<close>

definition fails_twice :: upstream where
  "fails_twice n url query = (if n < 2 then Threw (Rejected ''timeout of 25000ms exceeded'') else Resp 200 (Some []))"

definition always_503 :: upstream where
  "always_503 n url query = Resp 503 None"

definition q0 :: overpass_query where "q0 = IdQuery ''osm-42''"

text \<open>The first lot of the seed data.\<close>

definition lotA :: parking_lot where
  "lotA = \<lparr>lot_id = ''A'', name = ''North Campus Lot A'', totalSpots = 150, availableSpots = 45,
            location = \<lparr>lat = 33.4242, lng = - 111.9281\<rparr>, lastUpdate = 0, sensors = []\<rparr>"

text \<open>
  The end-to-end scenario: six recent records of lot A at another hour (latest three 48,
  prior three 52) and twenty records at the target day and hour (Thursday, hour 0, for
  a clock at the epoch and 30 minutes ahead), ten with 45 and ten with 55 available
  spots; \<open>patA\<close> is the matched set.
\<close>

definition record_at :: "nat \<Rightarrow> nat \<Rightarrow> int \<Rightarrow> int \<Rightarrow> historical_data" where
  "record_at d h a t =
     \<lparr>parkingLotId = ''A'', timestamp = t, h_availableSpots = a, occupancyRate = Fin 0,
      dayOfWeek = d, hour = h, isHoliday = False\<rparr>"

definition histA :: "historical_data list" where
  "histA =
     map (record_at 3 23 48) [- 1, - 2, - 3] @ map (record_at 3 23 52) [- 4, - 5, - 6]
     @ map (record_at 4 0 45) [- 10, - 11, - 12, - 13, - 14, - 15, - 16, - 17, - 18, - 19]
     @ map (record_at 4 0 55) [- 20, - 21, - 22, - 23, - 24, - 25, - 26, - 27, - 28, - 29]"

definition patA :: "historical_data list" where
  "patA = map (record_at 4 0 45) [- 10, - 11, - 12, - 13, - 14, - 15, - 16, - 17, - 18, - 19]
     @ map (record_at 4 0 55) [- 20, - 21, - 22, - 23, - 24, - 25, - 26, - 27, - 28, - 29]"

text \<open>
  A lot with 23 of 150 spots and a single matching record of one available spot, for which
  the blend is \<open>7.5\<close> in exact arithmetic and just below it in doubles; and a lot of
  capacity zero with a single matching record.
\<close>

definition lotB :: parking_lot where
  "lotB = \<lparr>lot_id = ''B'', name = ''South Campus Lot B'', totalSpots = 150, availableSpots = 23,
            location = \<lparr>lat = 33.4225, lng = - 111.9265\<rparr>, lastUpdate = 0, sensors = []\<rparr>"

definition histB :: "historical_data list" where
  "histB = [\<lparr>parkingLotId = ''B'', timestamp = - 10, h_availableSpots = 1,
              occupancyRate = Fin 0, dayOfWeek = 4, hour = 0, isHoliday = False\<rparr>]"

definition lotZ :: parking_lot where
  "lotZ = \<lparr>lot_id = ''Z'', name = ''Closed Lot'', totalSpots = 0, availableSpots = 0,
            location = \<lparr>lat = 33.4210, lng = - 111.9250\<rparr>, lastUpdate = 0, sensors = []\<rparr>"

definition histZ :: "historical_data list" where
  "histZ = [\<lparr>parkingLotId = ''Z'', timestamp = - 10, h_availableSpots = 0,
              occupancyRate = NaN, dayOfWeek = 4, hour = 0, isHoliday = False\<rparr>]"

text \<open>
  A nearly full lot, two raw elements (one with a capacity tag, one without), two constant
  random sources, and the facility the transformer makes of the tagged element.
\<close>

definition lotFull :: parking_lot where
  "lotFull = \<lparr>lot_id = ''C'', name = ''Engineering Building Lot'', totalSpots = 80,
               availableSpots = 78, location = \<lparr>lat = 33.4258, lng = - 111.9298\<rparr>,
               lastUpdate = 0, sensors = []\<rparr>"

definition el_small :: element where
  "el_small = \<lparr>el_id = 7, el_lat = None, el_lon = None,
                el_center = Some \<lparr>ll_lat = 33.42, ll_lon = - 111.93\<rparr>,
                tag_capacity = Some ''5'', tag_name = None\<rparr>"

definition el_plain :: element where
  "el_plain = \<lparr>el_id = 8, el_lat = Some 33.43, el_lon = Some (- 111.92), el_center = None,
                tag_capacity = None, tag_name = Some ''Lot 59''\<rparr>"

definition random_zero :: "nat \<Rightarrow> real" where
  "random_zero k = 0"

definition random_high :: "nat \<Rightarrow> real" where
  "random_high k = 95 / 100"

definition fac_small :: facility where
  "fac_small = \<lparr>lot_id = ''osm-7'', name = ''Parking Lot 1'', totalSpots = 5, availableSpots = 2,
                 location = \<lparr>lat = 33.42, lng = - 111.93\<rparr>, lastUpdate = 0,
                 predictedAvailability = 11, fac_confidence = 94\<rparr>"

text \<open>The bound on the available count.\<close>

definition in_bounds :: "parking_lot \<Rightarrow> bool" where
  "in_bounds l = (0 \<le> availableSpots l \<and> availableSpots l \<le> totalSpots l)"

text \<open>
  One iteration of the background loop once the save has succeeded, as a function of its
  own; \<open>agree\<close> says that the stored lots with the identifier of a snapshot lot have its
  capacity, \<open>processed\<close> that the stored lots with an identifier in \<open>S\<close> carry the
  cycle's timestamp and a clamped count.
\<close>

definition step_world :: "faults \<Rightarrow> (nat \<Rightarrow> real) \<Rightarrow> int \<Rightarrow> parking_lot \<Rightarrow> nat \<Rightarrow> world \<Rightarrow> world" where
  "step_world fl random now lot n w =
     (let newAvailable = max 0 (min (totalSpots lot) (availableSpots lot + (\<lfloor>random n * 7\<rfloor> - 3)));
          w1 = w\<lparr>db_lots := save_lot (lot_id lot) newAvailable now (db_lots w)\<rparr>;
          w2 = (if random (Suc n) < 17 / 100
                then recordCurrentState fl now (lot_id lot) w1 else w1)
      in w2\<lparr>emitted := emitted w2 @
                [\<lparr>ev_lotId = lot_id lot, ev_availableSpots = newAvailable, ev_timestamp = now\<rparr>]\<rparr>)"




definition agree :: "parking_lot list \<Rightarrow> parking_lot list \<Rightarrow> bool" where
  "agree snapshot db =
     (\<forall>lot\<in>set snapshot. \<forall>d\<in>set db. lot_id d = lot_id lot \<longrightarrow> totalSpots d = totalSpots lot)"

definition processed :: "int \<Rightarrow> lot_id set \<Rightarrow> parking_lot list \<Rightarrow> bool" where
  "processed now S db =
     (\<forall>d\<in>set db. lot_id d \<in> S \<longrightarrow> lastUpdate d = now \<and> (0 \<le> totalSpots d \<longrightarrow> in_bounds d))"

text \<open>
  A store with the two lots, a store that never fails, one where saving the lot with a
  given id fails, and one where no history record can be saved.
\<close>

definition world0 :: world where
  "world0 = \<lparr>db_lots = [lotA, lotFull], db_history = [], emitted = [], logged = []\<rparr>"

definition no_faults :: faults where
  "no_faults = \<lparr>find_error = None, lot_save_error = (\<lambda>i. None), record_save_error = (\<lambda>i. None)\<rparr>"



section \<open>Properties\<close>

text \<open>
  C10. On an empty facility store the statistics report count 0, total 0 and available 0,
  while the average occupancy is the unguarded \<open>(0 - 0) / 0 * 100\<close>, that is \<open>NaN\<close>, which
  is serialised as \<^verbatim>\<open>null\<close>; it is not the number 0.
\<close>

theorem stats_empty_store_nan:
  "get_stats [] = \<lparr>totalParkingLots = 0, st_totalSpots = 0, totalAvailable = 0, avgOccupancy = NaN\<rparr>
   \<and> json_number (avgOccupancy (get_stats [])) = None
   \<and> avgOccupancy (get_stats []) \<noteq> Fin 0"
  by (simp add: get_stats_def js_div_def)

subsection \<open>Mirror client\<close>

text \<open>
  The loop from attempt \<open>i\<close>: it makes the attempts \<open>i, \<dots>, k - 1\<close> for some
  \<open>k \<le> A\<close>, all but the last of which fail, and either the last one succeeds or
  \<open>k = A\<close> and the last error is thrown.
\<close>

lemma callOverpass_from_trace:
  assumes "i < A"
  shows "\<exists>k. i < k \<and> k \<le> A
           \<and> calls (snd (callOverpass_from up mirrors query A i lastErr s))
               = calls s @ map (\<lambda>j. (mirror_url mirrors j, query)) [i..<k]
           \<and> (\<forall>j. i \<le> j \<and> j < k - 1 \<longrightarrow>
                 attempt_error (up (length (calls s) + (j - i)) (mirror_url mirrors j) query) \<noteq> None)
           \<and> (let out = up (length (calls s) + (k - 1 - i)) (mirror_url mirrors (k - 1)) query
              in (attempt_error out = None
                    \<and> fst (callOverpass_from up mirrors query A i lastErr s) = Inr (resp_data out))
               \<or> (k = A \<and> attempt_error out \<noteq> None
                    \<and> fst (callOverpass_from up mirrors query A i lastErr s) = Inl (attempt_error out)))"
  using assms
proof (induction up mirrors query A i lastErr s rule: callOverpass_from.induct)
  case (1 up mirrors query attempts i lastErr s)
  let ?out = "up (length (calls s)) (mirror_url mirrors i) query"
  let ?s1 = "s\<lparr>calls := calls s @ [(mirror_url mirrors i, query)]\<rparr>"
  let ?s2 = "?s1\<lparr>delays := delays ?s1 @ [500 * 2 ^ i]\<rparr>"
  show ?case
  proof (cases "attempt_error ?out = None")
    case True
    then have "callOverpass_from up mirrors query attempts i lastErr s = (Inr (resp_data ?out), ?s1)"
      using "1.prems" by (simp add: callOverpass_from.simps [of up mirrors query attempts i] Let_def)
    then show ?thesis
      using True "1.prems" by (intro exI [of _ "Suc i"]) (auto simp add: Let_def)
  next
    case False
    then have unfold: "callOverpass_from up mirrors query attempts i lastErr s
        = callOverpass_from up mirrors query attempts (Suc i) (attempt_error ?out) ?s2"
      using "1.prems"
      by (simp add: callOverpass_from.simps [of up mirrors query attempts i] Let_def
               del: not_None_eq)
    show ?thesis
    proof (cases "Suc i < attempts")
      case True
      from "1.IH" [OF "1.prems" refl refl refl False True]
      obtain k where k: "Suc i < k" "k \<le> attempts"
        "calls (snd (callOverpass_from up mirrors query attempts (Suc i) (attempt_error ?out) ?s2))
           = calls ?s2 @ map (\<lambda>j. (mirror_url mirrors j, query)) [Suc i..<k]"
        "\<forall>j. Suc i \<le> j \<and> j < k - 1 \<longrightarrow>
            attempt_error (up (length (calls ?s2) + (j - Suc i)) (mirror_url mirrors j) query) \<noteq> None"
        "(let out = up (length (calls ?s2) + (k - 1 - Suc i)) (mirror_url mirrors (k - 1)) query
          in (attempt_error out = None
                \<and> fst (callOverpass_from up mirrors query attempts (Suc i) (attempt_error ?out) ?s2) = Inr (resp_data out))
           \<or> (k = attempts \<and> attempt_error out \<noteq> None
                \<and> fst (callOverpass_from up mirrors query attempts (Suc i) (attempt_error ?out) ?s2) = Inl (attempt_error out)))"
        by blast
      have idx: "length (calls ?s2) + (j - Suc i) = length (calls s) + (j - i)" if "Suc i \<le> j" for j
        using that by simp
      have range: "[i..<k] = i # [Suc i..<k]"
        using k(1) by (simp add: upt_conv_Cons)
      have a: "calls (snd (callOverpass_from up mirrors query attempts i lastErr s))
                 = calls s @ map (\<lambda>j. (mirror_url mirrors j, query)) [i..<k]"
        unfolding unfold k(3) range by simp
      have b: "\<forall>j. i \<le> j \<and> j < k - 1 \<longrightarrow>
                 attempt_error (up (length (calls s) + (j - i)) (mirror_url mirrors j) query) \<noteq> None"
      proof (intro allI impI)
        fix j assume j: "i \<le> j \<and> j < k - 1"
        show "attempt_error (up (length (calls s) + (j - i)) (mirror_url mirrors j) query) \<noteq> None"
        proof (cases "j = i")
          case True
          then show ?thesis using False by simp
        next
          case False
          then have "Suc i \<le> j" using j by simp
          then show ?thesis using k(4) j idx [of j] by metis
        qed
      qed
      have "Suc i \<le> k - 1" using k(1) by simp
      from idx [OF this] have c: "length (calls ?s2) + (k - 1 - Suc i) = length (calls s) + (k - 1 - i)" .
      from k(5) have d: "(let out = up (length (calls s) + (k - 1 - i)) (mirror_url mirrors (k - 1)) query
          in (attempt_error out = None
                \<and> fst (callOverpass_from up mirrors query attempts i lastErr s) = Inr (resp_data out))
           \<or> (k = attempts \<and> attempt_error out \<noteq> None
                \<and> fst (callOverpass_from up mirrors query attempts i lastErr s) = Inl (attempt_error out)))"
        unfolding unfold c .
      from k(1) k(2) a b d show ?thesis
        by (intro exI [of _ k]) simp
    next
      case stop: False
      then have last: "Suc i = attempts" using "1.prems" by simp
      have "callOverpass_from up mirrors query attempts (Suc i) (attempt_error ?out) ?s2
              = (Inl (attempt_error ?out), ?s2)"
        using stop by (simp add: callOverpass_from.simps [of up mirrors query attempts "Suc i"])
      with unfold have "callOverpass_from up mirrors query attempts i lastErr s
              = (Inl (attempt_error ?out), ?s2)" by simp
      then show ?thesis
        using False last by (intro exI [of _ "Suc i"]) (auto simp add: Let_def)
    qed
  qed
qed

text \<open>
  C7. With a non-empty mirror list and \<open>A \<ge> 1\<close> attempts, attempt \<open>j\<close> goes to mirror
  \<open>j mod N\<close>, starting at mirror 0; the client stops at the first attempt that answers
  with a 2xx status and returns its data; it never posts more than \<open>A\<close> requests; and
  when all \<open>A\<close> attempts fail it throws the error of the last attempt.
\<close>

theorem callOverpass_round_robin:
  assumes "mirrors \<noteq> []" and "1 \<le> A"
  shows "(\<forall>k<A. (\<forall>j<k. attempt_error (attempt_outcome up mirrors query s j) \<noteq> None)
                 \<and> attempt_error (attempt_outcome up mirrors query s k) = None
            \<longrightarrow> fst (callOverpassWith mirrors up query A s)
                  = Inr (resp_data (attempt_outcome up mirrors query s k))
              \<and> calls (snd (callOverpassWith mirrors up query A s))
                  = calls s @ map (\<lambda>j. (Some (mirrors ! (j mod length mirrors)), query)) [0..<Suc k])
       \<and> ((\<forall>j<A. attempt_error (attempt_outcome up mirrors query s j) \<noteq> None)
            \<longrightarrow> fst (callOverpassWith mirrors up query A s)
                  = Inl (attempt_error (attempt_outcome up mirrors query s (A - 1)))
              \<and> calls (snd (callOverpassWith mirrors up query A s))
                  = calls s @ map (\<lambda>j. (Some (mirrors ! (j mod length mirrors)), query)) [0..<A])
       \<and> length (calls (snd (callOverpassWith mirrors up query A s))) \<le> length (calls s) + A"
proof -
  let ?R = "callOverpassWith mirrors up query A s"
  let ?fail = "\<lambda>j. attempt_error (attempt_outcome up mirrors query s j) \<noteq> None"
  let ?urls = "\<lambda>k. map (\<lambda>j. (Some (mirrors ! (j mod length mirrors)), query)) [0..<k]"
  have url: "mirror_url mirrors j = Some (mirrors ! (j mod length mirrors))" for j
    using assms(1) by (simp add: mirror_url_def)
  from assms(2) have "0 < A" by simp
  from callOverpass_from_trace [OF this, of up mirrors query None s]
  obtain k0 where k0: "0 < k0" "k0 \<le> A"
      "calls (snd ?R) = calls s @ ?urls k0"
      "\<forall>j<k0 - 1. ?fail j"
      "(\<not> ?fail (k0 - 1) \<and> fst ?R = Inr (resp_data (attempt_outcome up mirrors query s (k0 - 1))))
       \<or> (k0 = A \<and> ?fail (k0 - 1) \<and> fst ?R = Inl (attempt_error (attempt_outcome up mirrors query s (k0 - 1))))"
    unfolding callOverpassWith_def attempt_outcome_def Let_def url by auto
  have first: "fst ?R = Inr (resp_data (attempt_outcome up mirrors query s k)) \<and> calls (snd ?R) = calls s @ ?urls (Suc k)"
    if k: "k < A" "\<forall>j<k. ?fail j" "\<not> ?fail k" for k
  proof -
    have "\<not> k < k0 - 1" using k0(4) k(3) by blast
    moreover have "\<not> k0 - 1 < k"
    proof
      assume lt: "k0 - 1 < k"
      then have "?fail (k0 - 1)" using k(2) by blast
      with k0(5) have "k0 = A" by blast
      with lt k(1) show False by simp
    qed
    ultimately have eq: "k0 - 1 = k" by simp
    then have "Suc k = k0" using k0(1) by simp
    with k0(3) k0(5) k(3) eq show ?thesis by auto
  qed
  have none: "fst ?R = Inl (attempt_error (attempt_outcome up mirrors query s (A - 1))) \<and> calls (snd ?R) = calls s @ ?urls A"
    if all: "\<forall>j<A. ?fail j"
  proof -
    have "k0 - 1 < A" using k0(1) k0(2) by simp
    then have "?fail (k0 - 1)" using all by blast
    with k0(5) have "k0 = A" "fst ?R = Inl (attempt_error (attempt_outcome up mirrors query s (k0 - 1)))"
      by blast+
    with k0(3) show ?thesis by simp
  qed
  have bound: "length (calls (snd ?R)) \<le> length (calls s) + A"
    using k0(2) k0(3) by simp
  from first none bound show ?thesis by blast
qed

theorem callOverpass_round_robin_witness:
  "OVERPASS_MIRRORS \<noteq> [] \<and> (1::nat) \<le> 3
   \<and> fst (callOverpass fails_twice q0 3 initial_state) = Inr (Some [])
   \<and> map fst (calls (snd (callOverpass fails_twice q0 3 initial_state)))
       = [Some ''https://overpass-api.de/api/interpreter'',
          Some ''https://overpass.kumi.systems/api/interpreter'',
          Some ''https://overpass.openstreetmap.ru/api/interpreter'']
   \<and> fst (callOverpass always_503 q0 3 initial_state) = Inl (Some (Non2xx 503))
   \<and> length (calls (snd (callOverpass always_503 q0 3 initial_state))) = 3"
proof -
  have m: "OVERPASS_MIRRORS \<noteq> []" by (simp add: OVERPASS_MIRRORS_def)
  have a: "(1::nat) \<le> 3" by simp
  note t1 = callOverpass_round_robin [OF m a, of fails_twice q0 initial_state]
  note t2 = callOverpass_round_robin [OF m a, of always_503 q0 initial_state]
  have ok: "(\<forall>j<2. attempt_error (attempt_outcome fails_twice OVERPASS_MIRRORS q0 initial_state j) \<noteq> None)
      \<and> attempt_error (attempt_outcome fails_twice OVERPASS_MIRRORS q0 initial_state 2) = None"
    by (simp add: attempt_outcome_def fails_twice_def initial_state_def)
  have bad: "\<forall>j<3. attempt_error (attempt_outcome always_503 OVERPASS_MIRRORS q0 initial_state j) \<noteq> None"
    by (simp add: attempt_outcome_def always_503_def)
  have lt: "(2::nat) < 3" by simp
  note a1 = t1 [THEN conjunct1, rule_format, of 2, OF lt ok]
  note a2 = t2 [THEN conjunct2, THEN conjunct1, THEN mp, OF bad]
  from a1 have r1: "fst (callOverpass fails_twice q0 3 initial_state)
                  = Inr (resp_data (attempt_outcome fails_twice OVERPASS_MIRRORS q0 initial_state 2))"
     and c1: "calls (snd (callOverpass fails_twice q0 3 initial_state))
                  = calls initial_state @ map (\<lambda>j. (Some (OVERPASS_MIRRORS ! (j mod length OVERPASS_MIRRORS)), q0)) [0..<Suc 2]"
    unfolding callOverpass_def by blast+
  from a2 have r2: "fst (callOverpass always_503 q0 3 initial_state)
                  = Inl (attempt_error (attempt_outcome always_503 OVERPASS_MIRRORS q0 initial_state (3 - 1)))"
     and c2: "calls (snd (callOverpass always_503 q0 3 initial_state))
                  = calls initial_state @ map (\<lambda>j. (Some (OVERPASS_MIRRORS ! (j mod length OVERPASS_MIRRORS)), q0)) [0..<3]"
    unfolding callOverpass_def by blast+
  have e1: "fst (callOverpass fails_twice q0 3 initial_state) = Inr (Some [])"
    unfolding r1 by (simp add: attempt_outcome_def fails_twice_def initial_state_def)
  have e2: "map fst (calls (snd (callOverpass fails_twice q0 3 initial_state)))
       = [Some ''https://overpass-api.de/api/interpreter'',
          Some ''https://overpass.kumi.systems/api/interpreter'',
          Some ''https://overpass.openstreetmap.ru/api/interpreter'']"
    unfolding c1 by code_simp
  have e3: "fst (callOverpass always_503 q0 3 initial_state) = Inl (Some (Non2xx 503))"
    unfolding r2 by (simp add: attempt_outcome_def always_503_def)
  have e4: "length (calls (snd (callOverpass always_503 q0 3 initial_state))) = 3"
    unfolding c2 by (simp add: initial_state_def)
  from m a e1 e2 e3 e4 show ?thesis by blast
qed

subsection \<open>Prediction engine\<close>




text \<open>
  C5. For an identifier that no stored lot has, \<^verbatim>\<open>predictAvailability\<close> fails with
  the error "Parking lot not found" and returns no prediction. The prediction route
  answers that failure with status 500, where the sibling single-lot route answers a
  missing lot with status 404.
\<close>

theorem predict_missing_lot:
  assumes "findById lots i = None"
  shows "predictAvailability fp lots hist now rnd i m = Inl (Error ''Parking lot not found'')
         \<and> status (predict_route fp lots hist now rnd i minutes) = 500
         \<and> status (get_lot_route fp lots hist now rnd i) = 404"
  using assms by (simp add: predictAvailability_def predict_route_def get_lot_route_def Let_def)

theorem predict_missing_lot_witness:
  "findById [lotA] ''B'' = None
   \<and> predictAvailability ieee754 [lotA] [] 0 0 ''B'' 30 = Inl (Error ''Parking lot not found'')
   \<and> predict_route ieee754 [lotA] [] 0 0 ''B'' None
       = \<lparr>status = 500, body = ErrorJson ''Parking lot not found''\<rparr>
   \<and> get_lot_route ieee754 [lotA] [] 0 0 ''B''
       = \<lparr>status = 404, body = ErrorJson ''Parking lot not found''\<rparr>"
proof -
  have h: "findById [lotA] ''B'' = None" by (simp add: findById_def lotA_def)
  from predict_missing_lot [OF h, of ieee754 "[]" 0 0 30 None]
  have p: "predictAvailability ieee754 [lotA] [] 0 0 ''B'' 30 = Inl (Error ''Parking lot not found'')"
    by blast
  then have "predict_route ieee754 [lotA] [] 0 0 ''B'' None
       = \<lparr>status = 500, body = ErrorJson ''Parking lot not found''\<rparr>"
    by (simp add: predict_route_def)
  moreover have "get_lot_route ieee754 [lotA] [] 0 0 ''B''
       = \<lparr>status = 404, body = ErrorJson ''Parking lot not found''\<rparr>"
    using h by (simp add: get_lot_route_def)
  ultimately show ?thesis using h p by blast
qed

subsection \<open>Matched-history branch\<close>

text \<open>
  Evaluation in the arithmetic \<open>ieee754\<close>, and the end-to-end scenario: lot A with 150 spots
  and 45 available, a matched set of average 50 and standard deviation 5, a trend of
  \<open>- 4\<close>.
\<close>

lemma ieee754_simps:
  "to_double ieee754 = round_double"
  "Math_pow2 ieee754 = (\<lambda>x. round_double (x * x))"
  "Math_sqrt ieee754 = (\<lambda>x. round_double (sqrt x))"
  by (simp_all add: ieee754_def)

lemmas double_eval = round_double_def binade_def bit_length.simps round_half_even_def
  two_pow_def Let_def

lemmas matched_eval = avgAvailability_def sum_available_def variance_def trend_def blend_def
  find_sorted_limited_def historicalPattern_def getHours_def getDay_def Math_round_def
  ieee754_simps double_eval

lemma scenario_lot: "findById [lotA] ''A'' = Some lotA"
  by (simp add: findById_def lotA_def)

lemma scenario_pattern: "historicalPattern histA 0 ''A'' 30 = patA"
  by (simp add: historicalPattern_def find_sorted_limited_def histA_def patA_def
                record_at_def getHours_def getDay_def)

lemma scenario_avg: "avgAvailability ieee754 patA = 50"
  by (simp add: matched_eval patA_def record_at_def)

lemma scenario_variance: "variance ieee754 patA = 25"
  unfolding variance_def scenario_avg by (simp add: matched_eval patA_def record_at_def)

lemma scenario_stdDev: "stdDev ieee754 patA = 5"
proof -
  have "sqrt 25 = (5::real)" by (simp add: real_sqrt_unique)
  then show ?thesis
    unfolding stdDev_def scenario_variance by (simp add: ieee754_simps double_eval)
qed

lemma scenario_trend: "trend ieee754 histA ''A'' = - 4"
  by (simp add: matched_eval histA_def record_at_def)

lemma scenario_blend: "Math_round (blend ieee754 50 45 (- 4)) = 43"
  by (simp add: matched_eval)

lemma half_pattern: "historicalPattern histB 0 ''B'' 30 = histB"
  by (simp add: historicalPattern_def find_sorted_limited_def histB_def getHours_def getDay_def)

lemma half_prediction:
  "predictAvailability ieee754 [lotB] histB 0 rnd ''B'' 30
     = Inr \<lparr>predictedSpots = 7, confidence = Fin 95\<rparr>"
proof -
  have a: "avgAvailability ieee754 histB = 1" by (simp add: matched_eval histB_def)
  have v: "variance ieee754 histB = 0"
    unfolding variance_def a by (simp add: matched_eval histB_def)
  have s: "stdDev ieee754 histB = 0"
    unfolding stdDev_def v by (simp add: ieee754_simps double_eval)
  have t: "trend ieee754 histB ''B'' = 0" by (simp add: matched_eval histB_def)
  have b: "Math_round (blend ieee754 1 23 0) = 7" by (simp add: matched_eval)
  have c: "confidence_of ieee754 (js_div 0 150) = Fin 95"
    by (simp add: js_div_def matched_eval)
  have l: "findById [lotB] ''B'' = Some lotB" by (simp add: findById_def lotB_def)
  have h: "histB \<noteq> []" by (simp add: histB_def)
  have "totalSpots lotB = 150" "availableSpots lotB = 23" by (simp_all add: lotB_def)
  with h show ?thesis
    unfolding predictAvailability_def l half_pattern Let_def
    by (simp add: a t b s c)
qed

lemma zero_pattern: "historicalPattern histZ 0 ''Z'' 30 = histZ"
  by (simp add: historicalPattern_def find_sorted_limited_def histZ_def getHours_def getDay_def)

lemma zero_prediction:
  "predictAvailability ieee754 [lotZ] histZ 0 rnd ''Z'' 30
     = Inr \<lparr>predictedSpots = 0, confidence = NaN\<rparr>"
proof -
  have a: "avgAvailability ieee754 histZ = 0" by (simp add: matched_eval histZ_def)
  have v: "variance ieee754 histZ = 0"
    unfolding variance_def a by (simp add: matched_eval histZ_def)
  have s: "stdDev ieee754 histZ = 0"
    unfolding stdDev_def v by (simp add: ieee754_simps double_eval)
  have t: "trend ieee754 histZ ''Z'' = 0" by (simp add: matched_eval histZ_def)
  have b: "Math_round (blend ieee754 0 0 0) = 0" by (simp add: matched_eval)
  have l: "findById [lotZ] ''Z'' = Some lotZ" by (simp add: findById_def lotZ_def)
  have h: "histZ \<noteq> []" by (simp add: histZ_def)
  have "totalSpots lotZ = 0" "availableSpots lotZ = 0" by (simp_all add: lotZ_def)
  with h show ?thesis
    unfolding predictAvailability_def l zero_pattern Let_def
    by (simp add: a t b s js_div_def)
qed

lemma sqrt_25: "sqrt 25 = 5"
  by (simp add: real_sqrt_unique)

text \<open>
  C3, as stated, fails. The blend is computed in doubles: for the lot with 23 of 150 spots
  available and one matching record of one spot it is \<open>0.6 * 1 + 0.3 * 23 + 0.1 * 0\<close>,
  which is \<open>7.5\<close> exactly and rounds to 8, while the code's doubles give
  \<open>7.499999999999999\<close> and the prediction 7. And for a lot of capacity zero the
  confidence is \<open>NaN\<close>, no number of \<open>[70, 95]\<close>.
\<close>

theorem predict_matched_counterexample:
  "findById [lotB] ''B'' = Some lotB \<and> historicalPattern histB 0 ''B'' 30 = histB
   \<and> predictAvailability ieee754 [lotB] histB 0 0 ''B'' 30
       = Inr \<lparr>predictedSpots = 7, confidence = Fin 95\<rparr>
   \<and> max 0 (min 150 (Math_round (6 / 10 * 1 + 3 / 10 * 23 + 1 / 10 * 0))) = 8
   \<and> findById [lotZ] ''Z'' = Some lotZ \<and> historicalPattern histZ 0 ''Z'' 30 = histZ
   \<and> predictAvailability ieee754 [lotZ] histZ 0 0 ''Z'' 30
       = Inr \<lparr>predictedSpots = 0, confidence = NaN\<rparr>"
proof -
  have "findById [lotB] ''B'' = Some lotB" by (simp add: findById_def lotB_def)
  moreover have "findById [lotZ] ''Z'' = Some lotZ" by (simp add: findById_def lotZ_def)
  moreover have "max 0 (min 150 (Math_round (6 / 10 * 1 + 3 / 10 * 23 + 1 / 10 * 0))) = 8"
    by (simp add: Math_round_def)
  ultimately show ?thesis
    using half_pattern half_prediction [of 0] zero_pattern zero_prediction [of 0] by blast
qed

text \<open>
  C3, amended. For a stored lot of non-zero capacity with at least one matching record,
  all counts being safe integers, the result is the following, where every operation is
  rounded by the host (\<open>to_double\<close>) in the order the code performs it. The matched set
  holds the 20 latest records of the lot at the target day and hour. Its average is the
  sum divided by the number of records; the trend is the difference of the averages of
  the three latest and the three before them among the six latest records of the lot,
  each sum divided by 3 even when fewer than three records contribute, and 0 when the lot
  has fewer than two records; the standard deviation is the host's square root of the
  mean of the host's squares of the differences to the average. The prediction is
  \<open>\<lfloor>b + 1/2\<rfloor>\<close> clamped to \<open>[0, totalSpots]\<close> for the blend
  \<open>b = avg * 0.6 + available * 0.3 + trend * 0.1\<close> added from left to right, and the
  confidence is \<open>\<lfloor>min 95 (max 70 c) + 1/2\<rfloor>\<close> for
  \<open>c = 100 - stdDev / totalSpots * 100\<close>. In correctly rounded binary64 arithmetic, for
  150 spots, 45 available, average 50, standard deviation 5 and trend \<open>- 4\<close> the result
  is 43 spots with confidence 95.
\<close>

theorem predict_matched_formula:
  fixes fp :: js_math and lot :: parking_lot and hist :: "historical_data list"
    and i :: lot_id and now m :: int
  defines "matched \<equiv>
      take 20 (sort_key (\<lambda>r. - timestamp r)
        (filter (\<lambda>r. parkingLotId r = i \<and> dayOfWeek r = getDay (now + m * 60000)
                      \<and> hour r = getHours (now + m * 60000)) hist))"
    and "recent \<equiv> take 6 (sort_key (\<lambda>r. - timestamp r) (filter (\<lambda>r. parkingLotId r = i) hist))"
    and "addup \<equiv> foldl (\<lambda>s r. to_double fp (s + real_of_int (h_availableSpots r))) 0"
  defines "avg \<equiv> to_double fp (addup matched / real (length matched))"
    and "tr \<equiv> if 2 \<le> length recent
               then to_double fp (to_double fp (addup (take 3 recent) / 3)
                                  - to_double fp (addup (take 3 (drop 3 recent)) / 3))
               else 0"
  defines "sd \<equiv> Math_sqrt fp (to_double fp
      (foldl (\<lambda>s r. to_double fp
                (s + Math_pow2 fp (to_double fp (real_of_int (h_availableSpots r) - avg))))
         0 matched
       / real (length matched)))"
  defines "b \<equiv> to_double fp
      (to_double fp (to_double fp (avg * to_double fp (6 / 10))
                     + to_double fp (real_of_int (availableSpots lot) * to_double fp (3 / 10)))
       + to_double fp (tr * to_double fp (1 / 10)))"
    and "c \<equiv> to_double fp
      (100 - to_double fp (to_double fp (sd / real_of_int (totalSpots lot)) * 100))"
  assumes found: "findById lots i = Some lot" and nonzero: "totalSpots lot \<noteq> 0"
    and nonempty: "matched \<noteq> []"
    and safe: "isSafeInteger (totalSpots lot)" "isSafeInteger (availableSpots lot)"
      "\<forall>r\<in>set hist. isSafeInteger (h_availableSpots r)"
  shows "predictAvailability fp lots hist now rnd i m =
           Inr \<lparr>predictedSpots = max 0 (min (totalSpots lot) \<lfloor>b + 1 / 2\<rfloor>),
                confidence = Fin (real_of_int \<lfloor>min 95 (max 70 c) + 1 / 2\<rfloor>)\<rparr>
         \<and> (fp = ieee754 \<and> totalSpots lot = 150 \<and> availableSpots lot = 45
              \<and> avg = 50 \<and> sd = 5 \<and> tr = - 4
            \<longrightarrow> predictAvailability fp lots hist now rnd i m =
                  Inr \<lparr>predictedSpots = 43, confidence = Fin 95\<rparr>)"
proof -
  have pat: "historicalPattern hist now i m = matched"
    by (simp add: historicalPattern_def find_sorted_limited_def matched_def Let_def)
  have a: "avgAvailability fp matched = avg"
    by (simp add: avgAvailability_def sum_available_def avg_def addup_def)
  have t: "trend fp hist i = tr"
    by (simp add: trend_def find_sorted_limited_def sum_available_def tr_def recent_def
                  addup_def Let_def)
  have s: "stdDev fp matched = sd"
    unfolding stdDev_def variance_def a by (simp add: sd_def)
  have bl: "blend fp avg (availableSpots lot) tr = b"
    by (simp add: blend_def b_def)
  have general: "predictAvailability fp lots hist now rnd i m =
           Inr \<lparr>predictedSpots = max 0 (min (totalSpots lot) \<lfloor>b + 1 / 2\<rfloor>),
                confidence = Fin (real_of_int \<lfloor>min 95 (max 70 c) + 1 / 2\<rfloor>)\<rparr>"
    unfolding predictAvailability_def pat Let_def a t s bl
    using found nonzero nonempty by (simp add: js_div_def Math_round_def c_def bl)
  have example: "predictAvailability fp lots hist now rnd i m =
                  Inr \<lparr>predictedSpots = 43, confidence = Fin 95\<rparr>"
    if "fp = ieee754" "totalSpots lot = 150" "availableSpots lot = 45"
       "avg = 50" "sd = 5" "tr = - 4"
  proof -
    have "\<lfloor>b + 1 / 2\<rfloor> = 43"
      using scenario_blend unfolding bl [symmetric] that Math_round_def by simp
    moreover have "\<lfloor>min 95 (max 70 c) + 1 / 2\<rfloor> = 95"
      unfolding c_def that by (simp add: ieee754_simps double_eval)
    ultimately show ?thesis
      unfolding general using that(2) by simp
  qed
  from general example show ?thesis by blast
qed

theorem predict_matched_formula_witness:
  "findById [lotA] ''A'' = Some lotA \<and> totalSpots lotA \<noteq> 0
   \<and> historicalPattern histA 0 ''A'' 30 \<noteq> []
   \<and> isSafeInteger (totalSpots lotA) \<and> isSafeInteger (availableSpots lotA)
   \<and> list_all (\<lambda>r. isSafeInteger (h_availableSpots r)) histA
   \<and> totalSpots lotA = 150 \<and> availableSpots lotA = 45
   \<and> avgAvailability ieee754 (historicalPattern histA 0 ''A'' 30) = 50
   \<and> stdDev ieee754 (historicalPattern histA 0 ''A'' 30) = 5
   \<and> trend ieee754 histA ''A'' = - 4
   \<and> predictAvailability ieee754 [lotA] histA 0 0 ''A'' 30
       = Inr \<lparr>predictedSpots = 43, confidence = Fin 95\<rparr>
   \<and> findById [lotB] ''B'' = Some lotB \<and> totalSpots lotB \<noteq> 0
   \<and> historicalPattern histB 0 ''B'' 30 \<noteq> []
   \<and> isSafeInteger (totalSpots lotB) \<and> isSafeInteger (availableSpots lotB)
   \<and> list_all (\<lambda>r. isSafeInteger (h_availableSpots r)) histB
   \<and> predictAvailability ieee754 [lotB] histB 0 0 ''B'' 30
       = Inr \<lparr>predictedSpots = 7, confidence = Fin 95\<rparr>"
proof -
  have a1: "findById [lotA] ''A'' = Some lotA" by (rule scenario_lot)
  have a2: "totalSpots lotA \<noteq> 0" and a4: "totalSpots lotA = 150"
    and a5: "availableSpots lotA = 45" by (simp_all add: lotA_def)
  have a3: "historicalPattern histA 0 ''A'' 30 \<noteq> []"
    unfolding scenario_pattern by (simp add: patA_def)
  have b1: "findById [lotB] ''B'' = Some lotB" by (simp add: findById_def lotB_def)
  have b2: "totalSpots lotB \<noteq> 0" by (simp add: lotB_def)
  have b3: "historicalPattern histB 0 ''B'' 30 \<noteq> []"
    unfolding half_pattern by (simp add: histB_def)
  have a6: "isSafeInteger (totalSpots lotA)" and a7: "isSafeInteger (availableSpots lotA)"
    and a8: "\<forall>r\<in>set histA. isSafeInteger (h_availableSpots r)"
    by (simp_all add: isSafeInteger_def lotA_def histA_def record_at_def)
  have b6: "isSafeInteger (totalSpots lotB)" and b7: "isSafeInteger (availableSpots lotB)"
    and b8: "\<forall>r\<in>set histB. isSafeInteger (h_availableSpots r)"
    by (simp_all add: isSafeInteger_def lotB_def histB_def)
  have a8': "list_all (\<lambda>r. isSafeInteger (h_availableSpots r)) histA"
    using a8 by (simp add: list_all_iff)
  have b8': "list_all (\<lambda>r. isSafeInteger (h_availableSpots r)) histB"
    using b8 by (simp add: list_all_iff)
  note A = predict_matched_formula [where fp = ieee754 and lots = "[lotA]" and hist = histA
             and now = 0 and rnd = 0 and i = "''A''" and m = 30 and lot = lotA,
             OF a1 a2 a3 [unfolded historicalPattern_def find_sorted_limited_def Let_def] a6 a7 a8,
             THEN conjunct2, THEN mp]
  note B = predict_matched_formula [where fp = ieee754 and lots = "[lotB]" and hist = histB
             and now = 0 and rnd = 0 and i = "''B''" and m = 30 and lot = lotB,
             OF b1 b2 b3 [unfolded historicalPattern_def find_sorted_limited_def Let_def] b6 b7 b8,
             THEN conjunct1]
  have ra: "predictAvailability ieee754 [lotA] histA 0 0 ''A'' 30
       = Inr \<lparr>predictedSpots = 43, confidence = Fin 95\<rparr>"
    by (rule A)
       (simp add: ieee754_simps double_eval sqrt_25 histA_def record_at_def lotA_def
                  getHours_def getDay_def)
  from B have rb: "predictAvailability ieee754 [lotB] histB 0 0 ''B'' 30
       = Inr \<lparr>predictedSpots = 7, confidence = Fin 95\<rparr>"
    by (simp add: ieee754_simps double_eval histB_def lotB_def getHours_def getDay_def)
  from a1 a2 a3 a4 a5 a6 a7 a8' scenario_avg scenario_stdDev scenario_trend ra
    b1 b2 b3 b6 b7 b8' rb
  show ?thesis unfolding scenario_pattern by blast
qed

subsection \<open>Result transformer\<close>

text \<open>
  Two runs of the transformer on the same elements, with any random sources and clocks,
  compared element by element.
\<close>

lemma map_elements_Cons_fst:
  "fst (map_elements r t la lo n idx (el # els)) =
     fst (map_element r t la lo n idx el)
       # fst (map_elements r t la lo (snd (map_element r t la lo n idx el)) (Suc idx) els)"
  by (simp split: prod.splits)

lemma map_element_fixed:
  "lot_id (fst (map_element r1 t1 la lo n1 idx el)) = lot_id (fst (map_element r2 t2 la lo n2 idx el))
   \<and> name (fst (map_element r1 t1 la lo n1 idx el)) = name (fst (map_element r2 t2 la lo n2 idx el))
   \<and> location (fst (map_element r1 t1 la lo n1 idx el)) = location (fst (map_element r2 t2 la lo n2 idx el))"
  by (simp add: map_element_def Let_def)

lemma map_element_tagged:
  assumes "parseInt (tag_capacity el) \<noteq> None" and "parseInt (tag_capacity el) \<noteq> Some 0"
  shows "totalSpots (fst (map_element r1 t1 la lo n1 idx el)) = totalSpots (fst (map_element r2 t2 la lo n2 idx el))"
  using assms by (simp add: map_element_def Let_def del: not_None_eq)

lemma map_elements_fixed:
  "map lot_id (fst (map_elements r1 t1 la lo n1 idx els)) = map lot_id (fst (map_elements r2 t2 la lo n2 idx els))
   \<and> map name (fst (map_elements r1 t1 la lo n1 idx els)) = map name (fst (map_elements r2 t2 la lo n2 idx els))
   \<and> map location (fst (map_elements r1 t1 la lo n1 idx els)) = map location (fst (map_elements r2 t2 la lo n2 idx els))"
proof (induction els arbitrary: n1 n2 idx)
  case Nil
  show ?case by simp
next
  case (Cons el els)
  from Cons.IH [of "snd (map_element r1 t1 la lo n1 idx el)" "Suc idx"
                   "snd (map_element r2 t2 la lo n2 idx el)"]
       map_element_fixed [of r1 t1 la lo n1 idx el r2 t2 n2]
  show ?case
    unfolding map_elements_Cons_fst by simp
qed

lemma map_elements_tagged:
  assumes "\<forall>el\<in>set els. parseInt (tag_capacity el) \<noteq> None \<and> parseInt (tag_capacity el) \<noteq> Some 0"
  shows "map totalSpots (fst (map_elements r1 t1 la lo n1 idx els)) = map totalSpots (fst (map_elements r2 t2 la lo n2 idx els))"
  using assms
proof (induction els arbitrary: n1 n2 idx)
  case Nil
  show ?case by simp
next
  case (Cons el els)
  from Cons.prems have "parseInt (tag_capacity el) \<noteq> None" "parseInt (tag_capacity el) \<noteq> Some 0"
    by simp_all
  note hd = map_element_tagged [OF this, of r1 t1 la lo n1 idx r2 t2 n2]
  from Cons.prems have "\<forall>el\<in>set els. parseInt (tag_capacity el) \<noteq> None \<and> parseInt (tag_capacity el) \<noteq> Some 0"
    by simp
  from Cons.IH [OF this, of "snd (map_element r1 t1 la lo n1 idx el)" "Suc idx"
                   "snd (map_element r2 t2 la lo n2 idx el)"] hd
  show ?case
    unfolding map_elements_Cons_fst by simp
qed

text \<open>The fixtures, evaluated.\<close>

lemma parse_small: "parseInt (tag_capacity el_small) = Some 5"
  by (simp add: el_small_def parseInt_def is_space_def is_digit_def digit_val_def digits_value_def)

lemma map_element_small:
  "map_element random_high 0 la lo 0 0 el_small = (fac_small, 3)"
  unfolding map_element_def parse_small Let_def
  by (simp add: el_small_def random_high_def fac_small_def num_or_def show_int_def
                show_nat.simps)

lemma transform_small:
  "fst (mapOverpassToParkingLots random_high 0 0 [el_small] la lo) = [fac_small]"
  by (simp add: mapOverpassToParkingLots_def map_element_small)

text \<open>
  C9, as stated, fails: on the same element list and fallback coordinates two invocations
  whose \<^verbatim>\<open>Math.random()\<close> draws differ return different facility lists.
\<close>

theorem transformer_random_counterexample:
  "fst (mapOverpassToParkingLots random_zero 0 0 [el_plain] 33 (- 111))
     \<noteq> fst (mapOverpassToParkingLots random_high 0 0 [el_plain] 33 (- 111))"
proof -
  have p: "parseInt (tag_capacity el_plain) = None"
    by (simp add: el_plain_def parseInt_def)
  have "map totalSpots (fst (mapOverpassToParkingLots random_zero 0 0 [el_plain] 33 (- 111))) = [50]"
    by (simp add: mapOverpassToParkingLots_def map_element_def p Let_def random_zero_def)
  moreover
  have "map totalSpots (fst (mapOverpassToParkingLots random_high 0 0 [el_plain] 33 (- 111))) = [240]"
    by (simp add: mapOverpassToParkingLots_def map_element_def p Let_def random_high_def)
  ultimately show ?thesis by auto
qed

text \<open>
  C9, amended. Two invocations on the same element list and fallback coordinates return
  the same ids, names and locations whatever the random draws and the clock, and the same
  capacities when every element carries a capacity tag that parses to a non-zero integer;
  the synthesized capacities, the available counts, the predictions and the confidences
  depend on the draws.
\<close>

theorem transformer_fixed_fields:
  "map lot_id (fst (mapOverpassToParkingLots r1 n1 t1 els la lo))
     = map lot_id (fst (mapOverpassToParkingLots r2 n2 t2 els la lo))
   \<and> map name (fst (mapOverpassToParkingLots r1 n1 t1 els la lo))
     = map name (fst (mapOverpassToParkingLots r2 n2 t2 els la lo))
   \<and> map location (fst (mapOverpassToParkingLots r1 n1 t1 els la lo))
     = map location (fst (mapOverpassToParkingLots r2 n2 t2 els la lo))
   \<and> ((\<forall>el\<in>set els. parseInt (tag_capacity el) \<noteq> None \<and> parseInt (tag_capacity el) \<noteq> Some 0)
        \<longrightarrow> map totalSpots (fst (mapOverpassToParkingLots r1 n1 t1 els la lo))
            = map totalSpots (fst (mapOverpassToParkingLots r2 n2 t2 els la lo)))"
proof -
  have "\<forall>el\<in>set (take 50 els). parseInt (tag_capacity el) \<noteq> None \<and> parseInt (tag_capacity el) \<noteq> Some 0"
    if "\<forall>el\<in>set els. parseInt (tag_capacity el) \<noteq> None \<and> parseInt (tag_capacity el) \<noteq> Some 0"
    using that by (meson in_set_takeD)
  then show ?thesis
    unfolding mapOverpassToParkingLots_def
    using map_elements_fixed [of r1 t1 la lo n1 0 "take 50 els" r2 t2 n2]
          map_elements_tagged [of "take 50 els" r1 t1 la lo n1 0 r2 t2 n2]
    by blast
qed

theorem transformer_fixed_fields_witness:
  "parseInt (tag_capacity el_small) = Some 5
   \<and> map totalSpots (fst (mapOverpassToParkingLots random_zero 0 0 [el_small] 33 (- 111)))
       = map totalSpots (fst (mapOverpassToParkingLots random_high 7 99 [el_small] 33 (- 111)))"
proof -
  have "\<forall>el\<in>set [el_small]. parseInt (tag_capacity el) \<noteq> None \<and> parseInt (tag_capacity el) \<noteq> Some 0"
    by (simp add: parse_small)
  with transformer_fixed_fields [of random_zero 0 0 "[el_small]" 33 "- 111" random_high 7 99]
       parse_small
  show ?thesis by blast
qed

subsection \<open>Bounds of a predicted availability\<close>

text \<open>
  The matched-history branch clamps its prediction with
  \<^verbatim>\<open>Math.max(0, Math.min(lot.totalSpots, predicted))\<close>: for a non-negative capacity
  the prediction lies in \<open>[0, totalSpots]\<close>.
\<close>

lemma matched_branch_clamped:
  assumes "findById lots i = Some lot" and "historicalPattern hist now i m \<noteq> []"
    and "0 \<le> totalSpots lot" and "predictAvailability fp lots hist now rnd i m = Inr p"
  shows "0 \<le> predictedSpots p \<and> predictedSpots p \<le> totalSpots lot"
  using assms by (auto simp add: predictAvailability_def Let_def)

text \<open>
  C6. The no-data branch and the result transformer apply \<^verbatim>\<open>Math.max(0, ...)\<close> only.
  For the lot with 78 of 80 spots available, no history and a draw of 0.95, the no-data
  branch predicts 82 spots, two more than the lot has; for the element tagged with a
  capacity of 5 and draws of 0.95 the transformer makes a facility of 5 spots, 2 of them
  available, with a predicted availability of 11.
\<close>

theorem prediction_exceeds_capacity:
  "findById [lotFull] ''C'' = Some lotFull
   \<and> historicalPattern [] 0 ''C'' 30 = []
   \<and> totalSpots lotFull = 80 \<and> availableSpots lotFull = 78
   \<and> predictAvailability fp [lotFull] [] 0 (95 / 100) ''C'' 30
       = Inr \<lparr>predictedSpots = 82, confidence = Fin 60\<rparr>
   \<and> map totalSpots (fst (mapOverpassToParkingLots random_high 0 0 [el_small] 33 (- 111))) = [5]
   \<and> map availableSpots (fst (mapOverpassToParkingLots random_high 0 0 [el_small] 33 (- 111)))
       = [2]
   \<and> map predictedAvailability
         (fst (mapOverpassToParkingLots random_high 0 0 [el_small] 33 (- 111))) = [11]"
  unfolding transform_small
  by (simp add: predictAvailability_def findById_def lotFull_def historicalPattern_def
                find_sorted_limited_def fac_small_def)

subsection \<open>Background job and update route\<close>

text \<open>What the steps of a cycle leave unchanged, and the loop unfolded by one lot.\<close>

lemma recordCurrentState_frame:
  "db_lots (recordCurrentState fl now i w) = db_lots w
   \<and> emitted (recordCurrentState fl now i w) = emitted w"
  by (simp add: recordCurrentState_def Let_def split: option.splits)

lemma save_lot_keys:
  "map lot_id (save_lot i v now ls) = map lot_id ls
   \<and> map totalSpots (save_lot i v now ls) = map totalSpots ls"
  by (induction ls) (simp_all add: save_lot_def)

lemma update_lots_Cons:
  "update_lots fl random now (lot # rest) n w =
     (case lot_save_error fl (lot_id lot) of
        Some e \<Rightarrow> (Some e, Suc n, w)
      | None \<Rightarrow> update_lots fl random now rest (n + 2) (step_world fl random now lot n w))"
  by (simp add: step_world_def Let_def split: option.splits)

lemma step_world_db:
  "db_lots (step_world fl random now lot n w)
     = save_lot (lot_id lot)
         (max 0 (min (totalSpots lot) (availableSpots lot + (\<lfloor>random n * 7\<rfloor> - 3)))) now (db_lots w)"
  by (simp add: step_world_def Let_def recordCurrentState_frame)

text \<open>The invariants of the loop.\<close>

lemma agree_distinct:
  assumes "distinct (map lot_id db)"
  shows "agree db db"
  unfolding agree_def
proof (intro ballI impI)
  fix lot d assume "lot \<in> set db" "d \<in> set db" "lot_id d = lot_id lot"
  with assms have "d = lot" by (meson distinct_map inj_onD)
  then show "totalSpots d = totalSpots lot" by simp
qed

lemma agree_save_lot:
  "agree snapshot (save_lot i v now db) = agree snapshot db"
proof -
  have "(lot_id d' = j \<longrightarrow> totalSpots d' = t) = (lot_id d = j \<longrightarrow> totalSpots d = t)"
    if "d' = (if lot_id d = i then d\<lparr>availableSpots := v, lastUpdate := now\<rparr> else d)"
    for d d' :: parking_lot and j t
    using that by simp
  then show ?thesis
    unfolding agree_def save_lot_def set_map ball_simps by simp
qed

lemma agree_tail: "agree (lot # rest) db \<Longrightarrow> agree rest db"
  by (simp add: agree_def)

lemma save_lot_in_bounds:
  assumes "agree (lot # rest) db" and "\<forall>d\<in>set db. in_bounds d"
  shows "\<forall>d\<in>set (save_lot (lot_id lot) (max 0 (min (totalSpots lot) x)) now db). in_bounds d"
  using assms by (auto simp add: agree_def save_lot_def in_bounds_def)

lemma save_lot_processed:
  assumes "agree (lot # rest) db" and "processed now S db"
  shows "processed now (insert (lot_id lot) S)
           (save_lot (lot_id lot) (max 0 (min (totalSpots lot) x)) now db)"
  using assms by (auto simp add: agree_def save_lot_def in_bounds_def processed_def)

lemma update_lots_preserves:
  assumes "agree ls (db_lots w)" and "\<forall>d\<in>set (db_lots w). in_bounds d"
  shows "\<forall>d\<in>set (db_lots (snd (snd (update_lots fl random now ls n w)))). in_bounds d"
  using assms
proof (induction ls arbitrary: n w)
  case Nil
  then show ?case by simp
next
  case (Cons lot rest)
  show ?case
  proof (cases "lot_save_error fl (lot_id lot)")
    case (Some e)
    with Cons.prems(2) show ?thesis unfolding update_lots_Cons by simp
  next
    case None
    let ?w1 = "step_world fl random now lot n w"
    have "agree rest (db_lots ?w1)"
      unfolding step_world_db agree_save_lot using Cons.prems(1) by (rule agree_tail)
    moreover have "\<forall>d\<in>set (db_lots ?w1). in_bounds d"
      unfolding step_world_db using Cons.prems by (rule save_lot_in_bounds)
    ultimately show ?thesis
      unfolding update_lots_Cons None using Cons.IH [of ?w1 "n + 2"] by simp
  qed
qed

lemma update_lots_establishes:
  assumes "agree ls (db_lots w)" and "processed now S (db_lots w)"
    and "\<forall>x\<in>set ls. lot_save_error fl (lot_id x) = None"
  shows "processed now (S \<union> lot_id ` set ls)
           (db_lots (snd (snd (update_lots fl random now ls n w))))"
  using assms
proof (induction ls arbitrary: n w S)
  case Nil
  then show ?case by simp
next
  case (Cons lot rest)
  let ?w1 = "step_world fl random now lot n w"
  from Cons.prems(3) have ok: "lot_save_error fl (lot_id lot) = None"
    and rest: "\<forall>x\<in>set rest. lot_save_error fl (lot_id x) = None" by simp_all
  have a: "agree rest (db_lots ?w1)"
    unfolding step_world_db agree_save_lot using Cons.prems(1) by (rule agree_tail)
  have b: "processed now (insert (lot_id lot) S) (db_lots ?w1)"
    unfolding step_world_db using Cons.prems(1,2) by (rule save_lot_processed)
  from Cons.IH [OF a b rest, of "n + 2"] show ?case
    unfolding update_lots_Cons ok by simp
qed

lemma update_lots_keys:
  "map lot_id (db_lots (snd (snd (update_lots fl random now ls n w)))) = map lot_id (db_lots w)
   \<and> map totalSpots (db_lots (snd (snd (update_lots fl random now ls n w))))
       = map totalSpots (db_lots w)"
proof (induction ls arbitrary: n w)
  case Nil
  show ?case by simp
next
  case (Cons lot rest)
  show ?case
    unfolding update_lots_Cons
    by (cases "lot_save_error fl (lot_id lot)") (simp_all add: Cons.IH step_world_db save_lot_keys)
qed

lemma update_lots_ids:
  "lot_id ` set (db_lots (snd (snd (update_lots fl random now ls n w)))) = lot_id ` set (db_lots w)"
  using update_lots_keys [of fl random now ls n w] by (metis set_map)

lemma background_job_db:
  "db_lots (snd (background_job fl random now n w))
     = (case find_error fl of
          Some e \<Rightarrow> db_lots w
        | None \<Rightarrow> db_lots (snd (snd (update_lots fl random now (db_lots w) n w))))"
  by (simp add: background_job_def split: option.splits prod.splits)

lemma findById_update:
  assumes "\<forall>l. lot_id (upd l) = lot_id l"
  shows "findById (map (\<lambda>l. if lot_id l = i then upd l else l) ls) i = map_option upd (findById ls i)"
  using assms by (induction ls) (simp_all add: findById_def)

lemma put_lot_route_stored:
  assumes "findById (db_lots w) i = Some old" and "lot_save_error fl i = None"
  shows "findById (db_lots (snd (put_lot_route fl now i avail sens w))) i
           = Some (old\<lparr>availableSpots := avail, lastUpdate := now,
                        sensors := (case sens of None \<Rightarrow> sensors old | Some ss \<Rightarrow> ss)\<rparr>)"
  using assms
  by (simp add: put_lot_route_def Let_def recordCurrentState_frame findById_update)

lemma world0_distinct: "distinct (map lot_id (db_lots world0))"
  by (simp add: world0_def lotA_def lotFull_def)

lemma world0_in_bounds: "\<forall>d\<in>set (db_lots world0). in_bounds d"
  by (simp add: world0_def lotA_def lotFull_def in_bounds_def)

text \<open>
  C1, as stated, fails for the update call: a PUT with \<open>availableSpots = 500\<close> on the
  lot of 150 spots stores 500.
\<close>

theorem update_out_of_bounds_counterexample:
  "map availableSpots (db_lots (snd (put_lot_route no_faults 0 ''A'' 500 None world0))) = [500, 78]
   \<and> map totalSpots (db_lots (snd (put_lot_route no_faults 0 ''A'' 500 None world0))) = [150, 80]
   \<and> \<not> ((500::int) \<le> 150)"
  by (simp add: put_lot_route_def no_faults_def world0_def findById_def lotA_def lotFull_def
                Let_def recordCurrentState_frame)

text \<open>
  C1, amended. A cycle of the background job keeps \<open>0 \<le> available \<le> total\<close> when it
  holds for every stored lot before the cycle, and a cycle in which no save fails
  establishes it for every stored lot of non-negative capacity. The update call stores the
  supplied count as it is: afterwards the bound holds exactly when the supplied value lies
  in \<open>[0, totalSpots]\<close>.
\<close>

theorem availability_bounds:
  "(distinct (map lot_id (db_lots w)) \<and> (\<forall>d\<in>set (db_lots w). in_bounds d)
      \<longrightarrow> (\<forall>d\<in>set (db_lots (snd (background_job fl random now n w))). in_bounds d))
   \<and> (distinct (map lot_id (db_lots w)) \<and> find_error fl = None
        \<and> (\<forall>x\<in>set (db_lots w). lot_save_error fl (lot_id x) = None)
      \<longrightarrow> (\<forall>d\<in>set (db_lots (snd (background_job fl random now n w))).
             0 \<le> totalSpots d \<longrightarrow> in_bounds d))
   \<and> (findById (db_lots w) i = Some old \<and> lot_save_error fl i = None
      \<longrightarrow> (\<exists>d. findById (db_lots (snd (put_lot_route fl now i avail sens w))) i = Some d
               \<and> availableSpots d = avail \<and> totalSpots d = totalSpots old
               \<and> (in_bounds d \<longleftrightarrow> 0 \<le> avail \<and> avail \<le> totalSpots old)))"
proof (intro conjI impI)
  assume a: "distinct (map lot_id (db_lots w)) \<and> (\<forall>d\<in>set (db_lots w). in_bounds d)"
  then have "agree (db_lots w) (db_lots w)" by (simp add: agree_distinct)
  with a have "\<forall>d\<in>set (db_lots (snd (snd (update_lots fl random now (db_lots w) n w)))). in_bounds d"
    by (simp add: update_lots_preserves)
  with a show "\<forall>d\<in>set (db_lots (snd (background_job fl random now n w))). in_bounds d"
    unfolding background_job_db by (simp split: option.splits)
next
  assume b: "distinct (map lot_id (db_lots w)) \<and> find_error fl = None
        \<and> (\<forall>x\<in>set (db_lots w). lot_save_error fl (lot_id x) = None)"
  let ?db = "db_lots (snd (snd (update_lots fl random now (db_lots w) n w)))"
  from b have "agree (db_lots w) (db_lots w)" by (simp add: agree_distinct)
  moreover have "processed now {} (db_lots w)" by (simp add: processed_def)
  ultimately have p: "processed now ({} \<union> lot_id ` set (db_lots w)) ?db"
    using b by (intro update_lots_establishes) simp_all
  have ids: "lot_id ` set ?db = lot_id ` set (db_lots w)"
    by (rule update_lots_ids)
  have "\<forall>d\<in>set ?db. 0 \<le> totalSpots d \<longrightarrow> in_bounds d"
  proof (intro ballI impI)
    fix d assume d: "d \<in> set ?db" and t: "0 \<le> totalSpots d"
    from d have "lot_id d \<in> lot_id ` set ?db" by (rule imageI)
    then have "lot_id d \<in> {} \<union> lot_id ` set (db_lots w)" unfolding ids by simp
    with p d t show "in_bounds d" unfolding processed_def by blast
  qed
  with b show "\<forall>d\<in>set (db_lots (snd (background_job fl random now n w))).
                 0 \<le> totalSpots d \<longrightarrow> in_bounds d"
    unfolding background_job_db by simp
next
  assume c: "findById (db_lots w) i = Some old \<and> lot_save_error fl i = None"
  then have "findById (db_lots (snd (put_lot_route fl now i avail sens w))) i
           = Some (old\<lparr>availableSpots := avail, lastUpdate := now,
                        sensors := (case sens of None \<Rightarrow> sensors old | Some ss \<Rightarrow> ss)\<rparr>)"
    by (simp add: put_lot_route_stored)
  then show "\<exists>d. findById (db_lots (snd (put_lot_route fl now i avail sens w))) i = Some d
               \<and> availableSpots d = avail \<and> totalSpots d = totalSpots old
               \<and> (in_bounds d \<longleftrightarrow> 0 \<le> avail \<and> avail \<le> totalSpots old)"
    by (simp add: in_bounds_def)
qed

theorem availability_bounds_witness:
  "distinct (map lot_id (db_lots world0)) \<and> list_all in_bounds (db_lots world0)
   \<and> find_error no_faults = None
   \<and> list_all in_bounds (db_lots (snd (background_job no_faults random_high 0 0 world0)))
   \<and> findById (db_lots world0) ''A'' = Some lotA \<and> lot_save_error no_faults ''A'' = None
   \<and> map_option availableSpots
         (findById (db_lots (snd (put_lot_route no_faults 0 ''A'' 10 None world0))) ''A'') = Some 10"
proof -
  note T = availability_bounds [where w = world0 and fl = no_faults and random = random_high
             and now = 0 and n = 0 and i = "''A''" and old = lotA and avail = 10 and sens = None]
  have f: "findById (db_lots world0) ''A'' = Some lotA"
    by (simp add: world0_def findById_def lotA_def)
  have g: "lot_save_error no_faults ''A'' = None" and h: "find_error no_faults = None"
    by (simp_all add: no_faults_def)
  from T world0_distinct world0_in_bounds
  have "\<forall>d\<in>set (db_lots (snd (background_job no_faults random_high 0 0 world0))). in_bounds d"
    by blast
  then have c1: "list_all in_bounds (db_lots (snd (background_job no_faults random_high 0 0 world0)))"
    by (simp add: list_all_iff)
  from T f g
  obtain d where "findById (db_lots (snd (put_lot_route no_faults 0 ''A'' 10 None world0))) ''A'' = Some d"
    and "availableSpots d = 10" by blast
  then have c2: "map_option availableSpots
         (findById (db_lots (snd (put_lot_route no_faults 0 ''A'' 10 None world0))) ''A'') = Some 10"
    by simp
  have c0: "list_all in_bounds (db_lots world0)"
    using world0_in_bounds by (simp add: list_all_iff)
  from world0_distinct c0 h c1 f g c2 show ?thesis by blast
qed










subsection \<open>Area fetch\<close>

text \<open>
  The loop over the endpoints only appends to the request log, whatever the endpoints and
  the transformer are bound to.
\<close>

lemma try_endpoints_frame:
  "areaCache (snd (try_endpoints up tr la lo r eps lastErr s)) = areaCache s
   \<and> singleIdCache (snd (try_endpoints up tr la lo r eps lastErr s)) = singleIdCache s"
proof (induction eps arbitrary: lastErr s)
  case Nil
  show ?case by simp
next
  case (Cons ep eps)
  show ?case
  proof (cases "up (length (calls s)) (Some ep) (NearbyQuery la lo r)")
    case (Threw e)
    with Cons.IH [of "Some e" "s\<lparr>calls := calls s @ [(Some ep, NearbyQuery la lo r)]\<rparr>"]
    show ?thesis by (simp add: Let_def)
  next
    case (Resp st d)
    with Cons.IH [of "Some (ReferenceError ''transformOverpassToLots'')"
                     "s\<lparr>calls := calls s @ [(Some ep, NearbyQuery la lo r)]\<rparr>"]
    show ?thesis by (cases tr) (simp_all add: Let_def)
  qed
qed

text \<open>
  C4. \<^verbatim>\<open>fetchOpenStreetMapParking\<close> throws
  \<^verbatim>\<open>ReferenceError: OVERPASS_ENDPOINTS is not defined\<close> on every call, before any
  request is posted, and leaves the module state as it was. Its body neither reads nor
  writes the area cache, whatever the two missing identifiers are bound to. After two
  fetches with identical arguments from the initial state no upstream request was made,
  the area cache is still the initial, empty one, and a read of it misses for every key.
\<close>

theorem fetch_bypasses_area_cache:
  "fetchOpenStreetMapParking up la lo r s = (Inl (ReferenceError ''OVERPASS_ENDPOINTS''), s)
   \<and> message (ReferenceError ''OVERPASS_ENDPOINTS'') = ''OVERPASS_ENDPOINTS is not defined''
   \<and> areaCache (snd (fetch_with endpoints transform up la lo r s)) = areaCache s
   \<and> singleIdCache (snd (fetch_with endpoints transform up la lo r s)) = singleIdCache s
   \<and> fst (fetchOpenStreetMapParking up la lo r
            (snd (fetchOpenStreetMapParking up la lo r initial_state)))
       = Inl (ReferenceError ''OVERPASS_ENDPOINTS'')
   \<and> calls (snd (fetchOpenStreetMapParking up la lo r
              (snd (fetchOpenStreetMapParking up la lo r initial_state)))) = []
   \<and> areaCache (snd (fetchOpenStreetMapParking up la lo r
                  (snd (fetchOpenStreetMapParking up la lo r initial_state))))
       = initial_areaCache
   \<and> readAreaCache k maxAgeMs now
         (snd (fetchOpenStreetMapParking up la lo r
                (snd (fetchOpenStreetMapParking up la lo r initial_state)))) = None"
proof -
  have thrown: "fetchOpenStreetMapParking up la lo r s
                  = (Inl (ReferenceError ''OVERPASS_ENDPOINTS''), s)" for s
    by (simp add: fetchOpenStreetMapParking_def fetch_with_def OVERPASS_ENDPOINTS_def)
  have frame: "areaCache (snd (fetch_with endpoints transform up la lo r s)) = areaCache s
     \<and> singleIdCache (snd (fetch_with endpoints transform up la lo r s)) = singleIdCache s"
    using try_endpoints_frame [of up transform la lo r _ None s]
    by (cases endpoints) (simp_all add: fetch_with_def)
  have "readAreaCache k maxAgeMs now initial_state = None"
    by (simp add: readAreaCache_def initial_state_def initial_areaCache_def)
  with frame show ?thesis
    unfolding thrown by (simp add: initial_state_def)
qed

end
